theory Spec2Isabelle
  imports Complex_Main
begin

section \<open>The values of type double\<close>

text \<open>
  The solver computes on C doubles and depends on their special values: a configuration
  slot that was never set holds \<open>INFINITY\<close>, the running minimum \<open>h_S_max\<close> starts at
  \<open>INFINITY\<close>, and every sanity check is an \<open>isfinite\<close> test. A double is therefore
  modelled as a finite real, one of the two infinities, or NaN. Finite results are exact
  (rounding and overflow are left out) and the two zeros are identified, so a division of a
  nonzero value by zero takes the sign of the numerator; the special values follow IEEE 754:
  NaN propagates, \<open>inf - inf\<close>, \<open>0 * inf\<close>, \<open>0 / 0\<close> and \<open>inf / inf\<close> are NaN, and every
  comparison with a NaN is false.
\<close>

datatype dbl = Fin real | PInf | NInf | NaN

instantiation dbl :: "{plus, minus, uminus, times, inverse, ord, abs}"
begin

fun uminus_dbl :: "dbl \<Rightarrow> dbl" where
  "- (Fin a) = Fin (- a)"
| "- PInf = NInf"
| "- NInf = PInf"
| "- NaN = NaN"

fun plus_dbl :: "dbl \<Rightarrow> dbl \<Rightarrow> dbl" where
  "Fin a + Fin b = Fin (a + b)"
| "Fin a + PInf = PInf"
| "Fin a + NInf = NInf"
| "Fin a + NaN = NaN"
| "PInf + Fin b = PInf"
| "PInf + PInf = PInf"
| "PInf + NInf = NaN"
| "PInf + NaN = NaN"
| "NInf + Fin b = NInf"
| "NInf + PInf = NaN"
| "NInf + NInf = NInf"
| "NInf + NaN = NaN"
| "NaN + b = NaN"

definition minus_dbl :: "dbl \<Rightarrow> dbl \<Rightarrow> dbl" where
  "a - b = a + (- b)" for a b :: dbl

fun times_dbl :: "dbl \<Rightarrow> dbl \<Rightarrow> dbl" where
  "Fin a * Fin b = Fin (a * b)"
| "Fin a * PInf = (if a = 0 then NaN else if 0 < a then PInf else NInf)"
| "Fin a * NInf = (if a = 0 then NaN else if 0 < a then NInf else PInf)"
| "Fin a * NaN = NaN"
| "PInf * Fin b = (if b = 0 then NaN else if 0 < b then PInf else NInf)"
| "PInf * PInf = PInf"
| "PInf * NInf = NInf"
| "PInf * NaN = NaN"
| "NInf * Fin b = (if b = 0 then NaN else if 0 < b then NInf else PInf)"
| "NInf * PInf = NInf"
| "NInf * NInf = PInf"
| "NInf * NaN = NaN"
| "NaN * b = NaN"

fun divide_dbl :: "dbl \<Rightarrow> dbl \<Rightarrow> dbl" where
  "Fin a div Fin b =
     (if b = 0 then (if a = 0 then NaN else if 0 < a then PInf else NInf) else Fin (a / b))"
| "Fin a div PInf = Fin 0"
| "Fin a div NInf = Fin 0"
| "Fin a div NaN = NaN"
| "PInf div Fin b = (if 0 \<le> b then PInf else NInf)"
| "PInf div PInf = NaN"
| "PInf div NInf = NaN"
| "PInf div NaN = NaN"
| "NInf div Fin b = (if 0 \<le> b then NInf else PInf)"
| "NInf div PInf = NaN"
| "NInf div NInf = NaN"
| "NInf div NaN = NaN"
| "NaN div b = NaN"

definition inverse_dbl :: "dbl \<Rightarrow> dbl" where
  "inverse a = Fin 1 div a" for a :: dbl

fun less_dbl :: "dbl \<Rightarrow> dbl \<Rightarrow> bool" where
  "Fin a < Fin b = (a < b)"
| "Fin a < PInf = True"
| "Fin a < NInf = False"
| "Fin a < NaN = False"
| "PInf < b = False"
| "NInf < Fin b = True"
| "NInf < PInf = True"
| "NInf < NInf = False"
| "NInf < NaN = False"
| "NaN < b = False"

fun less_eq_dbl :: "dbl \<Rightarrow> dbl \<Rightarrow> bool" where
  "Fin a \<le> Fin b = (a \<le> b)"
| "Fin a \<le> PInf = True"
| "Fin a \<le> NInf = False"
| "Fin a \<le> NaN = False"
| "PInf \<le> Fin b = False"
| "PInf \<le> PInf = True"
| "PInf \<le> NInf = False"
| "PInf \<le> NaN = False"
| "NInf \<le> Fin b = True"
| "NInf \<le> PInf = True"
| "NInf \<le> NInf = True"
| "NInf \<le> NaN = False"
| "NaN \<le> b = False"

fun abs_dbl :: "dbl \<Rightarrow> dbl" where
  "\<bar>Fin a\<bar> = Fin \<bar>a\<bar>"
| "\<bar>PInf\<bar> = PInf"
| "\<bar>NInf\<bar> = PInf"
| "\<bar>NaN\<bar> = NaN"

instance ..

end

text \<open>The functions of \<open>math.h\<close> the sources call.\<close>

fun isfinite :: "dbl \<Rightarrow> bool" where
  "isfinite (Fin a) = True"
| "isfinite PInf = False"
| "isfinite NInf = False"
| "isfinite NaN = False"

fun isinf :: "dbl \<Rightarrow> bool" where
  "isinf (Fin a) = False"
| "isinf PInf = True"
| "isinf NInf = True"
| "isinf NaN = False"

text \<open>\<open>fmin\<close> returns the other argument when one of them is a NaN.\<close>

fun fmin :: "dbl \<Rightarrow> dbl \<Rightarrow> dbl" where
  "fmin NaN b = b"
| "fmin (Fin a) NaN = Fin a"
| "fmin PInf NaN = PInf"
| "fmin NInf NaN = NInf"
| "fmin (Fin a) (Fin b) = Fin (min a b)"
| "fmin (Fin a) PInf = Fin a"
| "fmin (Fin a) NInf = NInf"
| "fmin PInf (Fin b) = Fin b"
| "fmin PInf PInf = PInf"
| "fmin PInf NInf = NInf"
| "fmin NInf (Fin b) = NInf"
| "fmin NInf PInf = NInf"
| "fmin NInf NInf = NInf"

fun dsqrt :: "dbl \<Rightarrow> dbl" where
  "dsqrt (Fin a) = (if a < 0 then NaN else Fin (sqrt a))"
| "dsqrt PInf = PInf"
| "dsqrt NInf = NaN"
| "dsqrt NaN = NaN"

text \<open>
  The cast \<open>(int)x\<close> truncates towards zero; C leaves it undefined for a value that is not
  finite or does not fit an \<open>int\<close> (32 bits), which is \<open>None\<close> here.
\<close>

fun c_int :: "dbl \<Rightarrow> int option" where
  "c_int (Fin a) =
     (let i = (if 0 \<le> a then \<lfloor>a\<rfloor> else \<lceil>a\<rceil>)
      in if - 2147483648 \<le> i \<and> i \<le> 2147483647 then Some i else None)"
| "c_int PInf = None"
| "c_int NInf = None"
| "c_int NaN = None"

text \<open>The conversion \<open>(double)i\<close> of an \<open>int\<close>.\<close>

definition c_double :: "int \<Rightarrow> dbl" where
  "c_double i = Fin (of_int i)"

section \<open>The slope limiters\<close>

text \<open>
  Modelled from the spec: \<open>minmod2\<close> and \<open>minmod3\<close> are defined in the \<open>tools\<close> folder,
  which is not among the sources at hand. The specification gives them as:
  minmod2(a,b) = 0 if a*b <= 0, else sign(a)*min(|a|,|b|); minmod3 extends this to three
  arguments requiring a common sign.
\<close>

fun sign :: "dbl \<Rightarrow> dbl" where
  "sign (Fin a) = Fin (sgn a)"
| "sign PInf = Fin 1"
| "sign NInf = Fin (- 1)"
| "sign NaN = NaN"

definition minmod2 :: "dbl \<Rightarrow> dbl \<Rightarrow> dbl" where
  "minmod2 a b = (if a * b \<le> Fin 0 then Fin 0 else sign a * fmin \<bar>a\<bar> \<bar>b\<bar>)"

definition minmod3 :: "dbl \<Rightarrow> dbl \<Rightarrow> dbl \<Rightarrow> dbl" where
  "minmod3 a b c =
     (if a * b \<le> Fin 0 \<or> a * c \<le> Fin 0 \<or> b * c \<le> Fin 0 then Fin 0
      else sign a * fmin \<bar>a\<bar> (fmin \<bar>b\<bar> \<bar>c\<bar>))"

section \<open>The state of the one-dimensional GRP solver\<close>

text \<open>
  \<open>GRP_solver_ALE_source_Undone\<close> works on the arrays its caller owns (the rows of
  \<open>CV.RHO\<close>, \<open>CV.U\<close>, \<open>CV.P\<close>, \<open>CV.E\<close> and \<open>X\<close>, the array \<open>cpu_time\<close>, the global
  \<open>config\<close>), on its own arrays and on its local variables. An array is a function from
  indices to doubles and a table of rows a function of two indices; the text printed on
  the standard output is kept as a list of events. The indices the solver uses stay inside
  the arrays as they are allocated when there is at least one cell and the tables have at
  least two rows.
\<close>

datatype event =
    Printf string "int list"
  | Printf_g string dbl
  | DispPro dbl int

record state =
  CV_RHO :: "nat \<Rightarrow> nat \<Rightarrow> dbl"
  CV_U :: "nat \<Rightarrow> nat \<Rightarrow> dbl"
  CV_P :: "nat \<Rightarrow> nat \<Rightarrow> dbl"
  CV_E :: "nat \<Rightarrow> nat \<Rightarrow> dbl"
  X_coord :: "nat \<Rightarrow> nat \<Rightarrow> dbl"
  cpu_time :: "nat \<Rightarrow> dbl"
  config :: "nat \<Rightarrow> dbl"
  out :: "event list"
  s_rho :: "nat \<Rightarrow> dbl"
  s_u :: "nat \<Rightarrow> dbl"
  s_p :: "nat \<Rightarrow> dbl"
  U_next :: "nat \<Rightarrow> dbl"
  P_next :: "nat \<Rightarrow> dbl"
  RHO_next :: "nat \<Rightarrow> dbl"
  U_t :: "nat \<Rightarrow> dbl"
  P_t :: "nat \<Rightarrow> dbl"
  RHO_t :: "nat \<Rightarrow> dbl"
  F1 :: "nat \<Rightarrow> dbl"
  F2 :: "nat \<Rightarrow> dbl"
  F3 :: "nat \<Rightarrow> dbl"
  nu :: dbl
  h_S_max :: dbl
  time_c :: dbl
  tau :: dbl
  cpu_time_sum :: dbl
  find_bound :: bool
  UL :: dbl
  PL :: dbl
  RHOL :: dbl
  HL :: dbl
  SUL :: dbl
  SPL :: dbl
  SRHOL :: dbl
  UR :: dbl
  PR :: dbl
  RHOR :: dbl
  HR :: dbl
  SUR :: dbl
  SPR :: dbl
  SRHOR :: dbl

text \<open>
  The constants the solver reads from \<open>config\<close> when it is entered; \<open>N_steps\<close> is the
  source's \<open>N\<close> (slot 5, the maximum number of time steps) and \<open>h_init\<close> its \<open>h\<close> (slot 10,
  the length of the initial spatial grids).
\<close>

record solver_consts =
  t_all :: dbl
  eps :: dbl
  N_steps :: int
  gamma :: dbl
  CFL :: dbl
  h_init :: dbl
  bound :: int
  alpha :: dbl

text \<open>
  What the solver takes from outside this file: the GRP solver \<open>linear_GRP_solver_Edir\<close>
  of the \<open>Riemann_solver\<close> folder, which fills \<open>dire\<close> and \<open>mid\<close> from its fourteen double
  arguments (given here as the list of them in the order of the call), the two readings of
  \<open>clock()\<close> in time step \<open>k\<close>, the value of \<open>CLOCKS_PER_SEC\<close>, and whether each group of
  allocations succeeds.
\<close>

record env =
  linear_GRP_solver_Edir :: "dbl list \<Rightarrow> (dbl \<times> dbl \<times> dbl) \<times> (dbl \<times> dbl \<times> dbl)"
  tic :: "int \<Rightarrow> dbl"
  toc :: "int \<Rightarrow> dbl"
  CLOCKS_PER_SEC :: dbl
  mem_slope :: bool
  mem_next :: bool
  mem_t :: bool
  mem_flux :: bool

text \<open>\<open>int nt = 1\<close> is never assigned again: the solver reads row 0 and writes row 1.\<close>

definition nt :: nat where
  "nt = 1"

text \<open>How a block of the loop body ends: it goes on, or jumps to \<open>return_NULL\<close>.\<close>

datatype flow = Go state | Return_NULL state

fun state_of :: "flow \<Rightarrow> state" where
  "state_of (Go st) = st"
| "state_of (Return_NULL st) = st"

section \<open>The body of the main loop\<close>

text \<open>
  Lines 120-176: the ghost values of the two boundary cells. The \<open>printf\<close> of a
  recognised case happens once, guarded by \<open>find_bound\<close>; the initial boundary condition is
  evaluated once only.
\<close>

definition announce :: "string \<Rightarrow> state \<Rightarrow> state" where
  "announce msg st = (if find_bound st then st else st\<lparr>out := out st @ [Printf msg []]\<rparr>)"

definition boundary_values :: "solver_consts \<Rightarrow> nat \<Rightarrow> state \<Rightarrow> flow" where
  "boundary_values c m st =
     (if bound c = - 1 then
        (if find_bound st then Go st
         else Go ((announce ''Initial boudary conditions.'' st)
           \<lparr>find_bound := True,
            UL := CV_U st 0 0, UR := CV_U st 0 (m - 1),
            PL := CV_P st 0 0, PR := CV_P st 0 (m - 1),
            RHOL := CV_RHO st 0 0, RHOR := CV_RHO st 0 (m - 1),
            HL := h_init c, HR := h_init c\<rparr>))
      else if bound c = - 2 then
        Go ((announce ''Reflective boudary conditions.'' st)
          \<lparr>find_bound := True,
           UL := - CV_U st (nt - 1) 0, UR := - CV_U st (nt - 1) (m - 1),
           PL := CV_P st (nt - 1) 0, PR := CV_P st (nt - 1) (m - 1),
           RHOL := CV_RHO st (nt - 1) 0, RHOR := CV_RHO st (nt - 1) (m - 1),
           HL := X_coord st (nt - 1) 1 - X_coord st (nt - 1) 0,
           HR := X_coord st (nt - 1) m - X_coord st (nt - 1) (m - 1)\<rparr>)
      else if bound c = - 4 then
        Go ((announce ''Free boudary conditions.'' st)
          \<lparr>find_bound := True,
           UL := CV_U st (nt - 1) 0, UR := CV_U st (nt - 1) (m - 1),
           PL := CV_P st (nt - 1) 0, PR := CV_P st (nt - 1) (m - 1),
           RHOL := CV_RHO st (nt - 1) 0, RHOR := CV_RHO st (nt - 1) (m - 1),
           HL := X_coord st (nt - 1) 1 - X_coord st (nt - 1) 0,
           HR := X_coord st (nt - 1) m - X_coord st (nt - 1) (m - 1)\<rparr>)
      else if bound c = - 5 then
        Go ((announce ''Periodic boudary conditions.'' st)
          \<lparr>find_bound := True,
           UL := CV_U st (nt - 1) (m - 1), UR := CV_U st (nt - 1) 0,
           PL := CV_P st (nt - 1) (m - 1), PR := CV_P st (nt - 1) 0,
           RHOL := CV_RHO st (nt - 1) (m - 1), RHOR := CV_RHO st (nt - 1) 0,
           HL := X_coord st (nt - 1) m - X_coord st (nt - 1) (m - 1),
           HR := X_coord st (nt - 1) 1 - X_coord st (nt - 1) 0\<rparr>)
      else if bound c = - 24 then
        Go ((announce ''Reflective + Free boudary conditions.'' st)
          \<lparr>find_bound := True,
           UL := - CV_U st (nt - 1) 0, UR := CV_U st (nt - 1) (m - 1),
           PL := CV_P st (nt - 1) 0, PR := CV_P st (nt - 1) (m - 1),
           RHOL := CV_RHO st (nt - 1) 0, RHOR := CV_RHO st (nt - 1) (m - 1),
           HL := X_coord st (nt - 1) 1 - X_coord st (nt - 1) 0,
           HR := X_coord st (nt - 1) m - X_coord st (nt - 1) (m - 1)\<rparr>)
      else Return_NULL (st\<lparr>out := out st @ [Printf ''No suitable boundary coditions!'' []]\<rparr>))"

text \<open>
  Lines 179-225, one cell \<open>j\<close> of the slope reconstruction. The one-sided difference
  quotients of a variable \<open>v\<close> (a row of \<open>CV.U\<close>, \<open>CV.P\<close> or \<open>CV.RHO\<close>) with ghost values
  \<open>vL\<close> and \<open>vR\<close>: at the first and the last cell the ghost value and the ghost width
  replace the missing neighbour.
\<close>

definition h_L_slope :: "nat \<Rightarrow> state \<Rightarrow> dbl" where
  "h_L_slope j st =
     (if j \<noteq> 0 then Fin 0.5 * (X_coord st (nt - 1) (j + 1) - X_coord st (nt - 1) (j - 1))
      else Fin 0.5 * (X_coord st (nt - 1) (j + 1) - X_coord st (nt - 1) j + HL st))"

definition h_R_slope :: "nat \<Rightarrow> nat \<Rightarrow> state \<Rightarrow> dbl" where
  "h_R_slope m j st =
     (if j + 1 < m then Fin 0.5 * (X_coord st (nt - 1) (j + 2) - X_coord st (nt - 1) j)
      else Fin 0.5 * (X_coord st (nt - 1) (j + 1) - X_coord st (nt - 1) j + HR st))"

definition s_L_of :: "(nat \<Rightarrow> nat \<Rightarrow> dbl) \<Rightarrow> dbl \<Rightarrow> nat \<Rightarrow> state \<Rightarrow> dbl" where
  "s_L_of v vL j st =
     (if j \<noteq> 0 then (v (nt - 1) j - v (nt - 1) (j - 1)) / h_L_slope j st
      else (v (nt - 1) j - vL) / h_L_slope j st)"

definition s_R_of :: "(nat \<Rightarrow> nat \<Rightarrow> dbl) \<Rightarrow> dbl \<Rightarrow> nat \<Rightarrow> nat \<Rightarrow> state \<Rightarrow> dbl" where
  "s_R_of v vR m j st =
     (if j + 1 < m then (v (nt - 1) (j + 1) - v (nt - 1) j) / h_R_slope m j st
      else (vR - v (nt - 1) j) / h_R_slope m j st)"

definition limit_slope :: "solver_consts \<Rightarrow> int \<Rightarrow> dbl \<Rightarrow> dbl \<Rightarrow> dbl \<Rightarrow> dbl" where
  "limit_slope c k s_L s_R s_old =
     (if k = 1 then minmod2 s_L s_R
      else minmod3 (alpha c * s_L) (alpha c * s_R) s_old)"

definition slope_body :: "solver_consts \<Rightarrow> int \<Rightarrow> nat \<Rightarrow> nat \<Rightarrow> state \<Rightarrow> state" where
  "slope_body c k m j st =
     st\<lparr>s_u := (s_u st)(j :=
           limit_slope c k (s_L_of (CV_U st) (UL st) j st) (s_R_of (CV_U st) (UR st) m j st)
             (s_u st j)),
        s_p := (s_p st)(j :=
           limit_slope c k (s_L_of (CV_P st) (PL st) j st) (s_R_of (CV_P st) (PR st) m j st)
             (s_p st j)),
        s_rho := (s_rho st)(j :=
           limit_slope c k (s_L_of (CV_RHO st) (RHOL st) j st)
             (s_R_of (CV_RHO st) (RHOR st) m j st) (s_rho st j))\<rparr>"

definition reconstruct_slopes :: "solver_consts \<Rightarrow> int \<Rightarrow> nat \<Rightarrow> state \<Rightarrow> state" where
  "reconstruct_slopes c k m st = fold (slope_body c k m) [0..<m] st"

text \<open>
  Lines 226-239: the slopes of the ghost cells. Only the reflective and the periodic cases
  assign them; in every other case they keep the value they have.
\<close>

definition ghost_slopes :: "solver_consts \<Rightarrow> nat \<Rightarrow> state \<Rightarrow> state" where
  "ghost_slopes c m st =
     (if bound c = - 2 then st\<lparr>SUL := - s_u st 0, SUR := - s_u st (m - 1)\<rparr>
      else if bound c = - 5 then
        st\<lparr>SUL := s_u st (m - 1), SUR := s_u st 0,
           SPL := s_p st (m - 1), SPR := s_p st 0,
           SRHOL := s_rho st (m - 1), SRHOR := s_rho st 0\<rparr>
      else if bound c = - 24 then st\<lparr>SUL := - s_u st 0\<rparr>
      else st)"

text \<open>
  Lines 241-336, one interface \<open>j\<close> (from 0 to \<open>m\<close>). First the widths of the cells on its
  two sides and the values of a variable reconstructed at the interface from either side.
\<close>

definition h_L_face :: "nat \<Rightarrow> state \<Rightarrow> dbl" where
  "h_L_face j st =
     (if j \<noteq> 0 then X_coord st (nt - 1) j - X_coord st (nt - 1) (j - 1) else HL st)"

definition h_R_face :: "nat \<Rightarrow> nat \<Rightarrow> state \<Rightarrow> dbl" where
  "h_R_face m j st =
     (if j < m then X_coord st (nt - 1) (j + 1) - X_coord st (nt - 1) j else HR st)"

definition v_L_face ::
  "(nat \<Rightarrow> nat \<Rightarrow> dbl) \<Rightarrow> (nat \<Rightarrow> dbl) \<Rightarrow> dbl \<Rightarrow> dbl \<Rightarrow> nat \<Rightarrow> state \<Rightarrow> dbl" where
  "v_L_face v s vL sL j st =
     (if j \<noteq> 0 then v (nt - 1) (j - 1) + Fin 0.5 * h_L_face j st * s (j - 1)
      else vL + Fin 0.5 * h_L_face j st * sL)"

definition v_R_face ::
  "(nat \<Rightarrow> nat \<Rightarrow> dbl) \<Rightarrow> (nat \<Rightarrow> dbl) \<Rightarrow> dbl \<Rightarrow> dbl \<Rightarrow> nat \<Rightarrow> nat \<Rightarrow> state \<Rightarrow> dbl" where
  "v_R_face v s vR sR m j st =
     (if j < m then v (nt - 1) j - Fin 0.5 * h_R_face m j st * s j
      else vR + Fin 0.5 * h_R_face m j st * sR)"

definition rho_L :: "nat \<Rightarrow> state \<Rightarrow> dbl" where
  "rho_L j st = v_L_face (CV_RHO st) (s_rho st) (RHOL st) (SRHOL st) j st"

definition u_L :: "nat \<Rightarrow> state \<Rightarrow> dbl" where
  "u_L j st = v_L_face (CV_U st) (s_u st) (UL st) (SUL st) j st"

definition p_L :: "nat \<Rightarrow> state \<Rightarrow> dbl" where
  "p_L j st = v_L_face (CV_P st) (s_p st) (PL st) (SPL st) j st"

definition rho_R :: "nat \<Rightarrow> nat \<Rightarrow> state \<Rightarrow> dbl" where
  "rho_R m j st = v_R_face (CV_RHO st) (s_rho st) (RHOR st) (SRHOR st) m j st"

definition u_R :: "nat \<Rightarrow> nat \<Rightarrow> state \<Rightarrow> dbl" where
  "u_R m j st = v_R_face (CV_U st) (s_u st) (UR st) (SUR st) m j st"

definition p_R :: "nat \<Rightarrow> nat \<Rightarrow> state \<Rightarrow> dbl" where
  "p_R m j st = v_R_face (CV_P st) (s_p st) (PR st) (SPR st) m j st"

text \<open>The slopes handed to the GRP solver (lines 291-314).\<close>

definition s_L_face :: "(nat \<Rightarrow> dbl) \<Rightarrow> dbl \<Rightarrow> nat \<Rightarrow> dbl" where
  "s_L_face s sL j = (if j \<noteq> 0 then s (j - 1) else sL)"

definition s_R_face :: "(nat \<Rightarrow> dbl) \<Rightarrow> dbl \<Rightarrow> nat \<Rightarrow> nat \<Rightarrow> dbl" where
  "s_R_face s sR m j = (if j < m then s j else sR)"

text \<open>The sound speeds and the two quotients that enter the minimum \<open>h_S_max\<close>
  (lines 286-289).\<close>

definition c_L :: "solver_consts \<Rightarrow> nat \<Rightarrow> state \<Rightarrow> dbl" where
  "c_L c j st = dsqrt (gamma c * p_L j st / rho_L j st)"

definition c_R :: "solver_consts \<Rightarrow> nat \<Rightarrow> nat \<Rightarrow> state \<Rightarrow> dbl" where
  "c_R c m j st = dsqrt (gamma c * p_R m j st / rho_R m j st)"

definition ratio_L :: "solver_consts \<Rightarrow> nat \<Rightarrow> state \<Rightarrow> dbl" where
  "ratio_L c j st = h_L_face j st / (\<bar>u_L j st\<bar> + \<bar>c_L c j st\<bar>)"

definition ratio_R :: "solver_consts \<Rightarrow> nat \<Rightarrow> nat \<Rightarrow> state \<Rightarrow> dbl" where
  "ratio_R c m j st = h_R_face m j st / (\<bar>u_R m j st\<bar> + \<bar>c_R c m j st\<bar>)"

text \<open>The call of the GRP solver at interface \<open>j\<close> (line 317): the pair \<open>(dire, mid)\<close>.\<close>

definition solve_GRP ::
  "solver_consts \<Rightarrow> env \<Rightarrow> nat \<Rightarrow> nat \<Rightarrow> state \<Rightarrow> (dbl \<times> dbl \<times> dbl) \<times> (dbl \<times> dbl \<times> dbl)" where
  "solve_GRP c e m j st =
     linear_GRP_solver_Edir e
       [rho_L j st, rho_R m j st,
        s_L_face (s_rho st) (SRHOL st) j, s_R_face (s_rho st) (SRHOR st) m j,
        u_L j st, u_R m j st,
        s_L_face (s_u st) (SUL st) j, s_R_face (s_u st) (SUR st) m j,
        p_L j st, p_R m j st,
        s_L_face (s_p st) (SPL st) j, s_R_face (s_p st) (SPR st) m j,
        gamma c, eps c]"

definition dire :: "(dbl \<times> dbl \<times> dbl) \<times> (dbl \<times> dbl \<times> dbl) \<Rightarrow> nat \<Rightarrow> dbl" where
  "dire r i = (case r of ((d0, d1, d2), _) \<Rightarrow> if i = 0 then d0 else if i = 1 then d1 else d2)"

definition mid :: "(dbl \<times> dbl \<times> dbl) \<times> (dbl \<times> dbl \<times> dbl) \<Rightarrow> nat \<Rightarrow> dbl" where
  "mid r i = (case r of (_, (m0, m1, m2)) \<Rightarrow> if i = 0 then m0 else if i = 1 then m1 else m2)"

text \<open>The two checks of the star state (lines 319-328): each prints and sets
  \<open>time_c = t_all\<close>.\<close>

definition star_negative :: "solver_consts \<Rightarrow> int \<Rightarrow> nat \<Rightarrow> dbl \<Rightarrow> state \<Rightarrow> state" where
  "star_negative c k j p_star st =
     (if p_star < eps c
      then st\<lparr>out := out st @ [Printf ''<0.0 error on [%d, %d] (t_n, x) - STAR'' [k, int j]],
              time_c := t_all c\<rparr>
      else st)"

definition star_nonfinite :: "solver_consts \<Rightarrow> int \<Rightarrow> nat \<Rightarrow> dbl \<Rightarrow> dbl \<Rightarrow> state \<Rightarrow> state" where
  "star_nonfinite c k j u_star p_star st =
     (if \<not> isfinite u_star \<or> \<not> isfinite p_star
      then st\<lparr>out := out st @
                [Printf ''NAN or INFinite error on [%d, %d] (t_n, x) - STAR'' [k, int j]],
              time_c := t_all c\<rparr>
      else st)"

definition iface_body :: "solver_consts \<Rightarrow> env \<Rightarrow> int \<Rightarrow> nat \<Rightarrow> nat \<Rightarrow> state \<Rightarrow> flow" where
  "iface_body c e k m j st =
     (if p_L j st < eps c \<or> p_R m j st < eps c \<or> rho_L j st < eps c \<or> rho_R m j st < eps c
      then Return_NULL (st\<lparr>out := out st @
             [Printf ''<0.0 error on [%d, %d] (t_n, x) - Reconstruction'' [k, int j]]\<rparr>)
      else if \<not> isfinite (p_L j st) \<or> \<not> isfinite (p_R m j st) \<or> \<not> isfinite (u_L j st)
             \<or> \<not> isfinite (u_R m j st) \<or> \<not> isfinite (rho_L j st) \<or> \<not> isfinite (rho_R m j st)
      then Return_NULL (st\<lparr>out := out st @
             [Printf ''NAN or INFinite error on [%d, %d] (t_n, x) - Reconstruction'' [k, int j]]\<rparr>)
      else
        (let r = solve_GRP c e m j st;
             st1 = st\<lparr>h_S_max := fmin (fmin (h_S_max st) (ratio_L c j st)) (ratio_R c m j st)\<rparr>;
             st2 = star_nonfinite c k j (mid r 1) (mid r 2) (star_negative c k j (mid r 2) st1)
         in Go (st2\<lparr>RHO_next := (RHO_next st2)(j := mid r 0),
                    U_next := (U_next st2)(j := mid r 1),
                    P_next := (P_next st2)(j := mid r 2),
                    RHO_t := (RHO_t st2)(j := dire r 0),
                    U_t := (U_t st2)(j := dire r 1),
                    P_t := (P_t st2)(j := dire r 2)\<rparr>)))"

fun iface_loop :: "solver_consts \<Rightarrow> env \<Rightarrow> int \<Rightarrow> nat \<Rightarrow> nat list \<Rightarrow> state \<Rightarrow> flow" where
  "iface_loop c e k m [] st = Go st"
| "iface_loop c e k m (j # js) st =
     (case iface_body c e k m j st of
        Go st' \<Rightarrow> iface_loop c e k m js st'
      | Return_NULL st' \<Rightarrow> Return_NULL st')"

text \<open>
  Lines 338-346: the time step. It is computed from the CFL number unless the total time
  is not finite and \<open>config[16]\<close> holds a finite positive step, which is then kept.
\<close>

definition time_step :: "solver_consts \<Rightarrow> state \<Rightarrow> state" where
  "time_step c st =
     (let tau1 =
        (if isfinite (t_all c) \<or> \<not> isfinite (config st 16) \<or> config st 16 \<le> Fin 0
         then (let tau0 = CFL c * h_S_max st
               in if t_all c - eps c < time_c st + tau0 then t_all c - time_c st else tau0)
         else tau st)
      in st\<lparr>tau := tau1, nu := tau1 / h_init c\<rparr>)"

text \<open>Lines 348-364, one interface \<open>j\<close>: the fluxes, and the copy of the grid.\<close>

definition flux_body :: "solver_consts \<Rightarrow> nat \<Rightarrow> state \<Rightarrow> state" where
  "flux_body c j st =
     (let rho_h = RHO_next st j + Fin 0.5 * tau st * RHO_t st j;
          u_h = U_next st j + Fin 0.5 * tau st * U_t st j;
          p_h = P_next st j + Fin 0.5 * tau st * P_t st j;
          f1 = rho_h * u_h;
          f2 = f1 * u_h + p_h;
          f3 = (gamma c / (gamma c - Fin 1.0)) * p_h + Fin 0.5 * f1 * u_h
      in st\<lparr>F1 := (F1 st)(j := f1),
            F2 := (F2 st)(j := f2),
            F3 := (F3 st)(j := f3 * u_h),
            RHO_next := (RHO_next st)(j := rho_h + Fin 0.5 * tau st * RHO_t st j),
            U_next := (U_next st)(j := u_h + Fin 0.5 * tau st * U_t st j),
            P_next := (P_next st)(j := p_h + Fin 0.5 * tau st * P_t st j),
            X_coord := (X_coord st)(nt := (X_coord st nt)(j := X_coord st (nt - 1) j))\<rparr>)"

text \<open>
  Lines 367-396, one cell \<open>j\<close> of the forward Euler update: the new conserved values,
  the primitive values recovered from them, the two checks (each prints and sets
  \<open>time_c = t_all\<close>), and the slope kept for the next time step.
\<close>

definition RHO_new :: "nat \<Rightarrow> state \<Rightarrow> dbl" where
  "RHO_new j st = CV_RHO st (nt - 1) j - nu st * (F1 st (j + 1) - F1 st j)"

definition Mom :: "nat \<Rightarrow> state \<Rightarrow> dbl" where
  "Mom j st = CV_RHO st (nt - 1) j * CV_U st (nt - 1) j - nu st * (F2 st (j + 1) - F2 st j)"

definition Ene :: "nat \<Rightarrow> state \<Rightarrow> dbl" where
  "Ene j st = CV_RHO st (nt - 1) j * CV_E st (nt - 1) j - nu st * (F3 st (j + 1) - F3 st j)"

definition U_new :: "nat \<Rightarrow> state \<Rightarrow> dbl" where
  "U_new j st = Mom j st / RHO_new j st"

definition E_new :: "nat \<Rightarrow> state \<Rightarrow> dbl" where
  "E_new j st = Ene j st / RHO_new j st"

definition P_new :: "solver_consts \<Rightarrow> nat \<Rightarrow> state \<Rightarrow> dbl" where
  "P_new c j st = (Ene j st - Fin 0.5 * Mom j st * U_new j st) * (gamma c - Fin 1.0)"

definition update_negative :: "solver_consts \<Rightarrow> nat \<Rightarrow> state \<Rightarrow> bool" where
  "update_negative c j st \<longleftrightarrow> P_new c j st < eps c \<or> RHO_new j st < eps c"

definition update_nonfinite :: "solver_consts \<Rightarrow> nat \<Rightarrow> state \<Rightarrow> bool" where
  "update_nonfinite c j st \<longleftrightarrow>
     \<not> isfinite (P_new c j st) \<or> \<not> isfinite (U_new j st) \<or> \<not> isfinite (RHO_new j st)"

definition update_body :: "solver_consts \<Rightarrow> int \<Rightarrow> nat \<Rightarrow> state \<Rightarrow> state" where
  "update_body c k j st =
     (let st1 = st\<lparr>CV_RHO := (CV_RHO st)(nt := (CV_RHO st nt)(j := RHO_new j st)),
                   CV_U := (CV_U st)(nt := (CV_U st nt)(j := U_new j st)),
                   CV_E := (CV_E st)(nt := (CV_E st nt)(j := E_new j st)),
                   CV_P := (CV_P st)(nt := (CV_P st nt)(j := P_new c j st))\<rparr>;
          st2 = (if update_negative c j st
                 then st1\<lparr>out := out st1 @
                        [Printf ''<0.0 error on [%d, %d] (t_n, x) - Update'' [k, int j]],
                      time_c := t_all c\<rparr>
                 else st1);
          st3 = (if update_nonfinite c j st
                 then st2\<lparr>out := out st2 @
                        [Printf ''NAN or INFinite error on [%d, %d] (t_n, x) - Update'' [k, int j]],
                      time_c := t_all c\<rparr>
                 else st2)
      in st3\<lparr>s_u := (s_u st3)(j :=
                (U_next st (j + 1) - U_next st j) / (X_coord st nt (j + 1) - X_coord st nt j)),
             s_p := (s_p st3)(j :=
                (P_next st (j + 1) - P_next st j) / (X_coord st nt (j + 1) - X_coord st nt j)),
             s_rho := (s_rho st3)(j :=
                (RHO_next st (j + 1) - RHO_next st j) / (X_coord st nt (j + 1) - X_coord st nt j))\<rparr>)"

text \<open>Lines 416-422, one cell \<open>j\<close>: the new row becomes the old one.\<close>

definition copy_back_body :: "nat \<Rightarrow> state \<Rightarrow> state" where
  "copy_back_body j st =
     st\<lparr>CV_RHO := (CV_RHO st)(nt - 1 := (CV_RHO st (nt - 1))(j := CV_RHO st nt j)),
        CV_U := (CV_U st)(nt - 1 := (CV_U st (nt - 1))(j := CV_U st nt j)),
        CV_E := (CV_E st)(nt - 1 := (CV_E st (nt - 1))(j := CV_E st nt j)),
        CV_P := (CV_P st)(nt - 1 := (CV_P st (nt - 1))(j := CV_P st nt j))\<rparr>"

text \<open>
  Lines 398-413: the CPU time of the step is stored, the time advances, the progress is
  displayed, and the loop is left when the time has reached \<open>t_all - eps\<close> or is infinite.
\<close>

datatype step_result = Continue state | Break state | Goto_return_NULL state

fun after_step :: "step_result \<Rightarrow> state" where
  "after_step (Continue st) = st"
| "after_step (Break st) = st"
| "after_step (Goto_return_NULL st) = st"

definition record_time :: "solver_consts \<Rightarrow> env \<Rightarrow> int \<Rightarrow> state \<Rightarrow> state" where
  "record_time c e k st =
     (let st1 = st\<lparr>cpu_time := (cpu_time st)(nt := (toc e k - tic e k) / CLOCKS_PER_SEC e)\<rparr>;
          st2 = st1\<lparr>cpu_time_sum := cpu_time_sum st1 + cpu_time st1 nt,
                    time_c := time_c st1 + tau st1\<rparr>
      in st2\<lparr>out := out st2 @
           [if isfinite (t_all c) then DispPro (time_c st2 * Fin 100.0 / t_all c) k
            else DispPro (c_double k * Fin 100.0 / c_double (N_steps c)) k]\<rparr>)"

definition time_is_up :: "solver_consts \<Rightarrow> state \<Rightarrow> bool" where
  "time_is_up c st \<longleftrightarrow> t_all c - eps c < time_c st \<or> isinf (time_c st)"

definition time_update :: "solver_consts \<Rightarrow> env \<Rightarrow> int \<Rightarrow> nat \<Rightarrow> state \<Rightarrow> step_result" where
  "time_update c e k m st =
     (let st1 = record_time c e k st
      in if time_is_up c st1 then Break (st1\<lparr>config := (config st1)(5 := c_double k)\<rparr>)
         else Continue (fold copy_back_body [0..<m] st1))"

text \<open>One pass through the body of the main loop, time step \<open>k\<close>.\<close>

definition reconstruct :: "solver_consts \<Rightarrow> int \<Rightarrow> nat \<Rightarrow> state \<Rightarrow> state" where
  "reconstruct c k m st = ghost_slopes c m (reconstruct_slopes c k m st)"

definition advance :: "solver_consts \<Rightarrow> int \<Rightarrow> nat \<Rightarrow> state \<Rightarrow> state" where
  "advance c k m st =
     fold (update_body c k) [0..<m] (fold (flux_body c) [0..<Suc m] (time_step c st))"

definition step :: "solver_consts \<Rightarrow> env \<Rightarrow> int \<Rightarrow> nat \<Rightarrow> state \<Rightarrow> step_result" where
  "step c e k m st =
     (case boundary_values c m (st\<lparr>h_S_max := PInf\<rparr>) of
        Return_NULL st' \<Rightarrow> Goto_return_NULL st'
      | Go st1 \<Rightarrow>
          (case iface_loop c e k m [0..<Suc m] (reconstruct c k m st1) of
             Return_NULL st' \<Rightarrow> Goto_return_NULL st'
           | Go st2 \<Rightarrow> time_update c e k m (advance c k m st2)))"

section \<open>The main loop and the solver\<close>

text \<open>
  \<open>for(k = 1; k <= N; ++k)\<close>: the loop ends when \<open>k\<close> exceeds \<open>N\<close>, at a \<open>break\<close>, or at a
  jump to \<open>return_NULL\<close>. \<open>Left_loop k st\<close> is the state after the loop with the value \<open>k\<close>
  has there; \<open>Jumped st\<close> the state at the label when it was reached by a \<open>goto\<close>.
\<close>

datatype result = Left_loop int state | Jumped state

function march :: "solver_consts \<Rightarrow> env \<Rightarrow> nat \<Rightarrow> int \<Rightarrow> state \<Rightarrow> result" where
  "march c e m k st =
     (if k \<le> N_steps c then
        (case step c e k m st of
           Continue st' \<Rightarrow> march c e m (k + 1) st'
         | Break st' \<Rightarrow> Left_loop k st'
         | Goto_return_NULL st' \<Rightarrow> Jumped st')
      else Left_loop k st)"
  by pat_completeness auto
termination
  by (relation "measure (\<lambda>(c, e, m, k, st). nat (N_steps c + 1 - k))") auto

declare march.simps [simp del]

text \<open>Lines 425-426: the two messages after the loop, skipped by a \<open>goto\<close>.\<close>

fun epilogue :: "result \<Rightarrow> result" where
  "epilogue (Left_loop k st) =
     Left_loop k (st\<lparr>out := out st @
       [Printf ''Time is up at time step %d.'' [k],
        Printf_g ''The cost of CPU time for 1D-GRP Eulerian scheme for this problem is %g seconds.''
          (cpu_time_sum st)]\<rparr>)"
| "epilogue (Jumped st) = Jumped st"

fun final :: "result \<Rightarrow> state" where
  "final (Left_loop k st) = st"
| "final (Jumped st) = st"

text \<open>
  The solver. The constants are read from \<open>config\<close>; the two casts to \<open>int\<close> may be
  undefined, and then so is the run (\<open>None\<close>). The arrays of the slopes come from \<open>calloc\<close>
  and are zero; the other arrays and the ghost values come uninitialised and hold what the
  incoming state has there.
\<close>

definition read_consts :: "state \<Rightarrow> solver_consts option" where
  "read_consts st =
     (case c_int (config st 5) of
        None \<Rightarrow> None
      | Some n \<Rightarrow>
          (case c_int (config st 17) of
             None \<Rightarrow> None
           | Some b \<Rightarrow>
               Some \<lparr>t_all = config st 1, eps = config st 4, N_steps = n, gamma = config st 6,
                     CFL = config st 7, h_init = config st 10, bound = b,
                     alpha = config st 41\<rparr>))"

definition enter :: "solver_consts \<Rightarrow> state \<Rightarrow> state" where
  "enter c st =
     st\<lparr>cpu_time_sum := Fin 0.0, tau := config st 16, find_bound := False,
        s_rho := (\<lambda>j. Fin 0), s_u := (\<lambda>j. Fin 0), s_p := (\<lambda>j. Fin 0)\<rparr>"

definition start :: "solver_consts \<Rightarrow> state \<Rightarrow> state" where
  "start c st =
     st\<lparr>time_c := Fin 0.0,
        HL := h_init c, SUL := Fin 0.0, SPL := Fin 0.0, SRHOL := Fin 0.0,
        HR := h_init c, SUR := Fin 0.0, SPR := Fin 0.0, SRHOR := Fin 0.0\<rparr>"

definition no_memory :: "string \<Rightarrow> state \<Rightarrow> result" where
  "no_memory msg st = Jumped (st\<lparr>out := out st @ [Printf msg []]\<rparr>)"

definition run_solver :: "solver_consts \<Rightarrow> env \<Rightarrow> nat \<Rightarrow> state \<Rightarrow> result" where
  "run_solver c e m st =
     (if \<not> mem_slope e then no_memory ''NOT enough memory! Slope'' (enter c st)
      else if \<not> mem_next e then no_memory ''NOT enough memory! Variables_next'' (enter c st)
      else if \<not> mem_t e then no_memory ''NOT enough memory! Temproal derivative'' (enter c st)
      else if \<not> mem_flux e then no_memory ''NOT enough memory! Flux'' (enter c st)
      else epilogue (march c e m 1 (start c (enter c st))))"

definition GRP_solver_ALE_source_Undone :: "env \<Rightarrow> nat \<Rightarrow> state \<Rightarrow> result option" where
  "GRP_solver_ALE_source_Undone e m st =
     (case read_consts st of None \<Rightarrow> None | Some c \<Rightarrow> Some (run_solver c e m st))"

section \<open>The main function of the one-dimensional program\<close>

text \<open>
  \<open>main\<close> (\<open>hydrocode_1D/hydrocode.c\<close>) after \<open>initialize_1D\<close> has returned: the state holds
  \<open>config\<close> and the initial rows \<open>CV.RHO[0]\<close>, \<open>CV.U[0]\<close>, \<open>CV.P[0]\<close>; \<open>n_plot\<close> is the
  number \<open>N\<close> of rows of each table, which \<open>main\<close> allocates (lines 171-215) and hands to
  the solver it calls. The four solvers \<open>main\<close> chooses from are defined in other files and
  return nothing: each is a function of the cell count, the number of rows and the memory,
  \<open>None\<close> when its run is undefined. \<open>file_1D_write\<close> is outside as well; the result records
  the memory it is called on. A cell count that is negative, tables without the row 0 that
  \<open>main\<close> itself writes (lines 217-220), or a cast that C leaves undefined, are outside the
  model (\<open>None\<close>).
\<close>

record solvers =
  Godunov_solver_LAG_source :: "nat \<Rightarrow> int \<Rightarrow> state \<Rightarrow> state option"
  GRP_solver_LAG_source :: "nat \<Rightarrow> int \<Rightarrow> state \<Rightarrow> state option"
  Godunov_solver_EUL_source :: "nat \<Rightarrow> int \<Rightarrow> state \<Rightarrow> state option"
  GRP_solver_EUL_source :: "nat \<Rightarrow> int \<Rightarrow> state \<Rightarrow> state option"

record main_result =
  retval :: int
  written :: "state option"
  memory :: state

definition init_X :: "dbl \<Rightarrow> nat \<Rightarrow> state \<Rightarrow> state" where
  "init_X hh j st = st\<lparr>X_coord := (X_coord st)(0 := (X_coord st 0)(j := hh * c_double (int j)))\<rparr>"

definition init_E :: "dbl \<Rightarrow> nat \<Rightarrow> state \<Rightarrow> state" where
  "init_E g j st =
     st\<lparr>CV_E := (CV_E st)(0 := (CV_E st 0)(j :=
          Fin 0.5 * CV_U st 0 j * CV_U st 0 j + CV_P st 0 j / (g - Fin 1.0) / CV_RHO st 0 j))\<rparr>"

definition copy_X :: "nat \<Rightarrow> nat \<Rightarrow> state \<Rightarrow> state" where
  "copy_X k j st = st\<lparr>X_coord := (X_coord st)(k := (X_coord st k)(j := X_coord st 0 j))\<rparr>"

definition copy_X_rows :: "nat \<Rightarrow> int \<Rightarrow> state \<Rightarrow> state" where
  "copy_X_rows m n_plot st = fold (\<lambda>k. fold (copy_X k) [0..<Suc m]) [1..<nat n_plot] st"

definition init_grid :: "nat \<Rightarrow> state \<Rightarrow> state" where
  "init_grid m st =
     fold (init_E (config st 6)) [0..<m] (fold (init_X (config st 10)) [0..<Suc m] st)"

definition say :: "string \<Rightarrow> int list \<Rightarrow> state \<Rightarrow> state" where
  "say msg args st = st\<lparr>out := out st @ [Printf msg args]\<rparr>"

definition give_up :: "int \<Rightarrow> state \<Rightarrow> main_result option" where
  "give_up r st = Some \<lparr>retval = r, written = None, memory = st\<rparr>"

definition write_and_return :: "state option \<Rightarrow> main_result option" where
  "write_and_return r =
     (case r of None \<Rightarrow> None
      | Some st \<Rightarrow> Some \<lparr>retval = 0, written = Some st, memory = st\<rparr>)"

definition main_1D :: "solvers \<Rightarrow> bool \<Rightarrow> string \<Rightarrow> int \<Rightarrow> state \<Rightarrow> main_result option" where
  "main_1D sv mem_ok argv4 n_plot st =
     (case (c_int (config st 3), c_int (config st 9)) of
        (Some mi, Some order) \<Rightarrow>
          if mi < 0 \<or> n_plot < 1 then None
          else if \<not> mem_ok then give_up 5 (say ''NOT enough memory!'' [] st)
          else
            (let m = nat mi; st1 = init_grid m st in
             if argv4 = ''LAG'' then
               (let st2 = st1\<lparr>config := (config st1)(8 := c_double 1)\<rparr> in
                if order = 1 then write_and_return (Godunov_solver_LAG_source sv m n_plot st2)
                else if order = 2 then write_and_return (GRP_solver_LAG_source sv m n_plot st2)
                else give_up 4
                  (say ''NOT appropriate order of the scheme! The order is %d.'' [order] st2))
             else if argv4 = ''EUL'' then
               (let st2 = copy_X_rows m n_plot (st1\<lparr>config := (config st1)(8 := c_double 0)\<rparr>) in
                if order = 1 then write_and_return (Godunov_solver_EUL_source sv m n_plot st2)
                else if order = 2 then write_and_return (GRP_solver_EUL_source sv m n_plot st2)
                else give_up 4
                  (say ''NOT appropriate order of the scheme! The order is %d.'' [order] st2))
             else give_up 4
               (say ''NOT appropriate coordinate framework! The framework is %s.'' [] st1))
      | _ \<Rightarrow> None)"

text \<open>
  The solver indexes the rows \<open>nt - 1 = 0\<close> and \<open>nt = 1\<close> of the tables it is given, and
  no other. Row \<open>nt\<close> is first touched when a time step has passed the loop over the
  interfaces (line 363, then lines 372-375 and 400); a step that leaves by a jump before
  has touched row \<open>nt - 1\<close> only, and it is the last one. So a run touches row \<open>nt\<close> exactly
  when its arrays are allocated, its loop is entered and the first time step does not jump.
\<close>

definition touches_row_nt :: "solver_consts \<Rightarrow> env \<Rightarrow> nat \<Rightarrow> state \<Rightarrow> bool" where
  "touches_row_nt c e m st \<longleftrightarrow>
     mem_slope e \<and> mem_next e \<and> mem_t e \<and> mem_flux e \<and> 1 \<le> N_steps c
       \<and> (case step c e 1 m (start c (enter c st)) of
             Goto_return_NULL s \<Rightarrow> False | Continue s \<Rightarrow> True | Break s \<Rightarrow> True)"

text \<open>
  The solver of this development put where \<open>main\<close> calls the second-order Eulerian
  solver, on tables of \<open>n_plot\<close> rows: the memory it leaves, whether it left its loop or
  jumped to its label. A run that touches row \<open>nt\<close> in tables that do not have this row
  accesses memory out of bounds; it is undefined (\<open>None\<close>).
\<close>

definition ALE_solver :: "env \<Rightarrow> nat \<Rightarrow> int \<Rightarrow> state \<Rightarrow> state option" where
  "ALE_solver e m n_plot st =
     (case read_consts st of
        None \<Rightarrow> None
      | Some c \<Rightarrow>
          if n_plot \<le> int nt \<and> touches_row_nt c e m st then None
          else map_option final (GRP_solver_ALE_source_Undone e m st))"

definition with_ALE :: "env \<Rightarrow> solvers \<Rightarrow> solvers" where
  "with_ALE e sv = sv\<lparr>GRP_solver_EUL_source := ALE_solver e\<rparr>"

section \<open>Reading the initial data\<close>

text \<open>
  How a reader ends: it returns, it ends the process with \<open>exit(n)\<close>, or it evaluates a
  cast that C leaves undefined. The functions that open, count and read a file
  (\<open>fopen\<close>, \<open>flu_var_count\<close>, \<open>flu_var_count_line\<close>, \<open>flu_var_read\<close>, \<open>malloc\<close>) are
  outside; a file is given by what they return for it.
\<close>

datatype 'a proc = Ret 'a | Exit int | Undef

record data_file =
  opens :: bool
  num :: int
  line :: int
  column :: int
  alloc_ok :: bool
  read_fails :: bool

text \<open>The end of both macros: the allocation and the reading of the values.\<close>

definition load_values :: "data_file \<Rightarrow> (nat \<Rightarrow> dbl) \<Rightarrow> (nat \<Rightarrow> dbl) proc" where
  "load_values f cfg =
     (if \<not> alloc_ok f then Exit 5 else if read_fails f then Exit 2 else Ret cfg)"

text \<open>
  \<open>STR_FLU_INI(sfv)\<close> of \<open>_1D_file_in.c\<close>; \<open>num f\<close> is what \<open>flu_var_count\<close> returns.
\<close>

definition STR_FLU_INI_1D :: "data_file \<Rightarrow> (nat \<Rightarrow> dbl) \<Rightarrow> (nat \<Rightarrow> dbl) proc" where
  "STR_FLU_INI_1D f cfg =
     (if \<not> opens f then Exit 1
      else if num f < 1 then Exit 2
      else if isinf (cfg 3) then load_values f (cfg(3 := c_double (num f)))
      else (case c_int (cfg 3) of
              None \<Rightarrow> Undef
            | Some n \<Rightarrow> if num f \<noteq> n then Exit 2 else load_values f cfg))"

fun read_files ::
  "(data_file \<Rightarrow> (nat \<Rightarrow> dbl) \<Rightarrow> (nat \<Rightarrow> dbl) proc) \<Rightarrow> data_file list \<Rightarrow> (nat \<Rightarrow> dbl)
     \<Rightarrow> (nat \<Rightarrow> dbl) proc" where
  "read_files rd [] cfg = Ret cfg"
| "read_files rd (f # fs) cfg =
     (case rd f cfg of Ret cfg' \<Rightarrow> read_files rd fs cfg' | Exit n \<Rightarrow> Exit n | Undef \<Rightarrow> Undef)"

text \<open>\<open>_1D_initialize\<close> reads the files of \<open>RHO\<close>, \<open>U\<close> and \<open>P\<close>, in this order.\<close>

definition file_1D_initialize ::
  "data_file \<Rightarrow> data_file \<Rightarrow> data_file \<Rightarrow> (nat \<Rightarrow> dbl) \<Rightarrow> (nat \<Rightarrow> dbl) proc" where
  "file_1D_initialize f_RHO f_U f_P cfg = read_files STR_FLU_INI_1D [f_RHO, f_U, f_P] cfg"

text \<open>
  \<open>flu_var_init\<close> of \<open>file_2D_in.c\<close>; \<open>line f\<close> and \<open>column f\<close> are what
  \<open>flu_var_count_line\<close> returns. The three tests of \<open>config\<close> follow each other, and the
  \<open>else\<close> belongs to the third one only. The operands of \<open>||\<close> are evaluated from the left
  until one holds.
\<close>

definition counts_differ :: "data_file \<Rightarrow> (nat \<Rightarrow> dbl) \<Rightarrow> bool option" where
  "counts_differ f cfg =
     (case c_int (cfg 3) of
        None \<Rightarrow> None
      | Some n \<Rightarrow>
          if line f * column f \<noteq> n then Some True
          else (case c_int (cfg 13) of
                  None \<Rightarrow> None
                | Some nx \<Rightarrow>
                    if column f \<noteq> nx then Some True
                    else (case c_int (cfg 14) of
                            None \<Rightarrow> None
                          | Some ny \<Rightarrow> Some (line f \<noteq> ny))))"

definition flu_var_init :: "data_file \<Rightarrow> (nat \<Rightarrow> dbl) \<Rightarrow> (nat \<Rightarrow> dbl) proc" where
  "flu_var_init f cfg =
     (if line f * column f < 1 then Exit 2
      else
        (let cfg1 = (if isinf (cfg 3) then cfg(3 := c_double (line f * column f)) else cfg);
             cfg2 = (if isinf (cfg1 13) then cfg1(13 := c_double (column f)) else cfg1)
         in if isinf (cfg2 14) then load_values f (cfg2(14 := c_double (line f)))
            else (case counts_differ f cfg2 of
                    None \<Rightarrow> Undef
                  | Some True \<Rightarrow> Exit 2
                  | Some False \<Rightarrow> load_values f cfg2)))"

text \<open>
  \<open>STR_FLU_INI(sfv, 1)\<close> of \<open>file_2D_in.c\<close>, and \<open>initialize_2D\<close> as it is compiled without
  \<open>MULTIFLUID_BASICS\<close>: the files of \<open>RHO\<close>, \<open>U\<close>, \<open>V\<close> and \<open>P\<close>, each with \<open>err_exit = 1\<close>.
\<close>

definition STR_FLU_INI_2D :: "data_file \<Rightarrow> (nat \<Rightarrow> dbl) \<Rightarrow> (nat \<Rightarrow> dbl) proc" where
  "STR_FLU_INI_2D f cfg = (if \<not> opens f then Exit 1 else flu_var_init f cfg)"

definition initialize_2D ::
  "data_file \<Rightarrow> data_file \<Rightarrow> data_file \<Rightarrow> data_file \<Rightarrow> (nat \<Rightarrow> dbl) \<Rightarrow> (nat \<Rightarrow> dbl) proc" where
  "initialize_2D f_RHO f_U f_V f_P cfg =
     read_files STR_FLU_INI_2D [f_RHO, f_U, f_V, f_P] cfg"

section \<open>Relations and example data for the statements\<close>

text \<open>
  What the solver may do to the grid \<open>X\<close>: an entry keeps its value, or it is an entry of row
  \<open>nt\<close> at an interface and holds the value of the same interface in row \<open>nt - 1\<close>.
\<close>

definition grid_step :: "nat \<Rightarrow> (nat \<Rightarrow> nat \<Rightarrow> dbl) \<Rightarrow> (nat \<Rightarrow> nat \<Rightarrow> dbl) \<Rightarrow> bool" where
  "grid_step m X X' \<longleftrightarrow>
     (\<forall>k j. X' k j = X k j \<or> (k = nt \<and> j \<le> m \<and> X' k j = X (nt - 1) j))"

text \<open>The boundary tags the solver knows.\<close>

definition known_bound :: "int \<Rightarrow> bool" where
  "known_bound b \<longleftrightarrow> b = - 1 \<or> b = - 2 \<or> b = - 4 \<or> b = - 5 \<or> b = - 24"

text \<open>The exit status of a run of \<open>main\<close>, and whether it has called \<open>file_1D_write\<close>.\<close>

definition exit_status :: "main_result option \<Rightarrow> int option" where
  "exit_status r = map_option retval r"

definition writer_called :: "main_result option \<Rightarrow> bool" where
  "writer_called r = (case r of None \<Rightarrow> False | Some x \<Rightarrow> written x \<noteq> None)"

text \<open>The rows of the cell variables are the same in two states.\<close>

definition same_cells :: "state \<Rightarrow> state \<Rightarrow> bool" where
  "same_cells st st' \<longleftrightarrow>
     CV_RHO st' = CV_RHO st \<and> CV_U st' = CV_U st \<and> CV_P st' = CV_P st \<and> CV_E st' = CV_E st"

text \<open>The memory \<open>main\<close> hands to an Eulerian solver.\<close>

definition EUL_memory :: "nat \<Rightarrow> int \<Rightarrow> state \<Rightarrow> state" where
  "EUL_memory m n_plot st =
     copy_X_rows m n_plot ((init_grid m st)\<lparr>config := (config (init_grid m st))(8 := c_double 0)\<rparr>)"

text \<open>
  Data for concrete runs. The GRP solver of the examples returns the left state as the
  star state, with no change in time; the clock advances by one tick in each step.
\<close>

definition left_state_solver :: "dbl list \<Rightarrow> (dbl \<times> dbl \<times> dbl) \<times> (dbl \<times> dbl \<times> dbl)" where
  "left_state_solver a = ((Fin 0, Fin 0, Fin 0), (a ! 0, a ! 4, a ! 8))"

definition example_env :: env where
  "example_env =
     \<lparr>linear_GRP_solver_Edir = left_state_solver,
      tic = (\<lambda>k. Fin 0), toc = (\<lambda>k. Fin 1), CLOCKS_PER_SEC = Fin 1000000,
      mem_slope = True, mem_next = True, mem_t = True, mem_flux = True\<rparr>"

definition blank :: state where
  "blank =
     \<lparr>CV_RHO = (\<lambda>k j. Fin 0), CV_U = (\<lambda>k j. Fin 0), CV_P = (\<lambda>k j. Fin 0),
      CV_E = (\<lambda>k j. Fin 0), X_coord = (\<lambda>k j. Fin 0), cpu_time = (\<lambda>k. Fin 0),
      config = (\<lambda>n. PInf), out = [],
      s_rho = (\<lambda>j. Fin 0), s_u = (\<lambda>j. Fin 0), s_p = (\<lambda>j. Fin 0),
      U_next = (\<lambda>j. Fin 0), P_next = (\<lambda>j. Fin 0), RHO_next = (\<lambda>j. Fin 0),
      U_t = (\<lambda>j. Fin 0), P_t = (\<lambda>j. Fin 0), RHO_t = (\<lambda>j. Fin 0),
      F1 = (\<lambda>j. Fin 0), F2 = (\<lambda>j. Fin 0), F3 = (\<lambda>j. Fin 0),
      nu = Fin 0, h_S_max = Fin 0, time_c = Fin 0, tau = Fin 0, cpu_time_sum = Fin 0,
      find_bound = False,
      UL = Fin 0, PL = Fin 0, RHOL = Fin 0, HL = Fin 0, SUL = Fin 0, SPL = Fin 0,
      SRHOL = Fin 0,
      UR = Fin 0, PR = Fin 0, RHOR = Fin 0, HR = Fin 0, SUR = Fin 0, SPR = Fin 0,
      SRHOR = Fin 0\<rparr>"

text \<open>
  A tube of two cells of width 1/2 at rest, with \<open>rho = 1\<close>, \<open>p = 2\<close> and \<open>gamma = 2\<close>, to be
  marched to the time 1 in at most three steps with the boundary condition \<open>bnd\<close>.
\<close>

definition example_config :: "int \<Rightarrow> nat \<Rightarrow> dbl" where
  "example_config bnd =
     (\<lambda>n. PInf)(1 := Fin 1, 3 := Fin 2, 4 := Fin 0.001, 5 := Fin 3, 6 := Fin 2, 7 := Fin 0.5,
       9 := Fin 2, 10 := Fin 0.5, 17 := c_double bnd, 41 := Fin 1.5)"

definition example_state :: "int \<Rightarrow> state" where
  "example_state bnd =
     blank\<lparr>config := example_config bnd, CV_RHO := (\<lambda>k j. Fin 1), CV_P := (\<lambda>k j. Fin 2)\<rparr>"

definition no_solvers :: solvers where
  "no_solvers =
     \<lparr>Godunov_solver_LAG_source = (\<lambda>m n st. None), GRP_solver_LAG_source = (\<lambda>m n st. None),
      Godunov_solver_EUL_source = (\<lambda>m n st. None), GRP_solver_EUL_source = (\<lambda>m n st. None)\<rparr>"

text \<open>
  Data for the readers: a file of \<open>l\<close> lines and \<open>c\<close> columns that can be opened and
  read, and a configuration that gives the cell count and \<open>n_x\<close> but not \<open>n_y\<close>.
\<close>

definition grid_file :: "int \<Rightarrow> int \<Rightarrow> data_file" where
  "grid_file l c =
     \<lparr>opens = True, num = l * c, line = l, column = c, alloc_ok = True, read_fails = False\<rparr>"

definition n_x_only :: "nat \<Rightarrow> dbl" where
  "n_x_only = (\<lambda>n. PInf)(3 := Fin 100, 13 := Fin 10)"

text \<open>Some cell below \<open>n\<close> fails a check of the update.\<close>

definition flagged :: "solver_consts \<Rightarrow> nat \<Rightarrow> state \<Rightarrow> bool" where
  "flagged c n st \<longleftrightarrow> (\<exists>i<n. update_negative c i st \<or> update_nonfinite c i st)"

text \<open>
  A state in the middle of a time step: the tube of two cells at rest with its ghost values
  under the free boundary condition and all slopes zero, before the loop over the
  interfaces; and a GRP solver that returns the left state with all time derivatives 1.
\<close>

definition drift_solver :: "dbl list \<Rightarrow> (dbl \<times> dbl \<times> dbl) \<times> (dbl \<times> dbl \<times> dbl)" where
  "drift_solver a = ((Fin 1, Fin 1, Fin 1), (a ! 0, a ! 4, a ! 8))"

definition drift_env :: env where
  "drift_env = example_env\<lparr>linear_GRP_solver_Edir := drift_solver\<rparr>"

definition tube_consts :: solver_consts where
  "tube_consts = \<lparr>t_all = Fin 1, eps = Fin 0.001, N_steps = 3, gamma = Fin 2, CFL = Fin 0.5,
     h_init = Fin 0.5, bound = - 4, alpha = Fin 1.5\<rparr>"

definition tube :: state where
  "tube = blank\<lparr>CV_RHO := (\<lambda>k j. Fin 1), CV_P := (\<lambda>k j. Fin 2),
     X_coord := (\<lambda>k j. Fin 0.5 * c_double (int j)),
     RHOL := Fin 1, RHOR := Fin 1, PL := Fin 2, PR := Fin 2, HL := Fin 0.5, HR := Fin 0.5,
     h_S_max := PInf\<rparr>"

definition tube_faces :: state where
  "tube_faces = state_of (iface_loop tube_consts drift_env 1 2 [0..<Suc 2] tube)"


text \<open>
  The states in which the solver begins a time step: \<open>reaches c e m st0 k st\<close> holds when
  the solver, entered with the memory \<open>st0\<close>, begins time step \<open>k\<close> in the state \<open>st\<close>.
\<close>

inductive reaches :: "solver_consts \<Rightarrow> env \<Rightarrow> nat \<Rightarrow> state \<Rightarrow> int \<Rightarrow> state \<Rightarrow> bool"
  for c :: solver_consts and e :: env and m :: nat and st0 :: state where
  first: "reaches c e m st0 1 (start c (enter c st0))"
| after: "reaches c e m st0 k st \<Longrightarrow> k \<le> N_steps c \<Longrightarrow> step c e k m st = Continue st'
     \<Longrightarrow> reaches c e m st0 (k + 1) st'"






text \<open>The minimum over the interfaces, on both sides, of the quotient of the cell width and
  the wave speed.\<close>

definition min_ratio :: "solver_consts \<Rightarrow> nat \<Rightarrow> nat list \<Rightarrow> state \<Rightarrow> dbl \<Rightarrow> dbl" where
  "min_ratio c m js st h0 =
     fold (\<lambda>j h. fmin (fmin h (ratio_L c j st)) (ratio_R c m j st)) js h0"










section \<open>Auxiliary facts\<close>

lemma fold_upt_Suc: "fold f [0..<Suc n] s = f n (fold f [0..<n] s)"
  by simp

lemma fold_inv: "(\<And>j s. Q s \<Longrightarrow> Q (f j s)) \<Longrightarrow> Q s \<Longrightarrow> Q (fold f js s)"
  by (induction js arbitrary: s) auto

lemma iface_loop_inv:
  assumes "\<And>j s. Q s \<Longrightarrow> Q (state_of (iface_body c e k m j s))" and "Q st"
  shows "Q (state_of (iface_loop c e k m js st))"
  using assms(2)
proof (induction js arbitrary: st)
  case Nil
  then show ?case by simp
next
  case (Cons j js)
  from Cons.prems have "Q (state_of (iface_body c e k m j st))"
    by (rule assms(1))
  then show ?case
    by (cases "iface_body c e k m j st") (simp_all add: Cons.IH)
qed

subsection \<open>The grid\<close>

lemma boundary_values_X: "X_coord (state_of (boundary_values c m st)) = X_coord st"
  by (simp add: boundary_values_def announce_def)

lemma reconstruct_X: "X_coord (reconstruct c k m st) = X_coord st"
proof -
  have "X_coord (reconstruct_slopes c k m st) = X_coord st"
    unfolding reconstruct_slopes_def
    by (rule fold_inv[where Q="\<lambda>s. X_coord s = X_coord st"]) (simp_all add: slope_body_def)
  then show ?thesis
    by (simp add: reconstruct_def ghost_slopes_def)
qed

lemma iface_body_X: "X_coord (state_of (iface_body c e k m j st)) = X_coord st"
  by (simp add: iface_body_def Let_def star_negative_def star_nonfinite_def)

lemma iface_loop_X: "X_coord (state_of (iface_loop c e k m js st)) = X_coord st"
  by (rule iface_loop_inv[where Q="\<lambda>s. X_coord s = X_coord st"]) (simp_all add: iface_body_X)

lemma flux_loop_X:
  "X_coord (fold (flux_body c) [0..<n] st) =
     (X_coord st)(nt := (\<lambda>j. if j < n then X_coord st (nt - 1) j else X_coord st nt j))"
proof (induction n)
  case 0
  show ?case by (simp add: fun_eq_iff)
next
  case (Suc n)
  have row: "X_coord (fold (flux_body c) [0..<n] st) (nt - 1) = X_coord st (nt - 1)"
    by (simp add: Suc nt_def)
  show ?case
    unfolding fold_upt_Suc
    by (simp add: flux_body_def Let_def row) (simp add: Suc fun_eq_iff less_Suc_eq)
qed

lemma update_loop_X: "X_coord (fold (update_body c k) js st) = X_coord st"
  by (rule fold_inv[where Q="\<lambda>s. X_coord s = X_coord st"]) (simp_all add: update_body_def Let_def)

lemma time_step_X: "X_coord (time_step c st) = X_coord st"
  by (simp add: time_step_def Let_def)

lemma advance_X:
  "X_coord (advance c k m st) =
     (X_coord st)(nt := (\<lambda>j. if j < Suc m then X_coord st (nt - 1) j else X_coord st nt j))"
  by (simp only: advance_def update_loop_X flux_loop_X time_step_X)

lemma copy_back_X: "X_coord (fold copy_back_body js st) = X_coord st"
  by (rule fold_inv[where Q="\<lambda>s. X_coord s = X_coord st"]) (simp_all add: copy_back_body_def)

lemma time_update_X: "X_coord (after_step (time_update c e k m st)) = X_coord st"
  by (simp add: time_update_def Let_def record_time_def copy_back_X)

lemma grid_step_refl: "grid_step m X X"
  by (simp add: grid_step_def)

lemma grid_step_trans: "grid_step m X X' \<Longrightarrow> grid_step m X' X'' \<Longrightarrow> grid_step m X X''"
  unfolding grid_step_def nt_def
  by (metis One_nat_def diff_self_eq_0 zero_neq_one)

lemma advance_grid_step: "grid_step m (X_coord st) (X_coord (advance c k m st))"
  by (simp add: advance_X grid_step_def)

lemma step_X: "grid_step m (X_coord st) (X_coord (after_step (step c e k m st)))"
proof (cases "boundary_values c m (st\<lparr>h_S_max := PInf\<rparr>)")
  case (Return_NULL s)
  with boundary_values_X[of c m "st\<lparr>h_S_max := PInf\<rparr>"] show ?thesis
    by (simp add: step_def grid_step_refl)
next
  case (Go st1)
  with boundary_values_X[of c m "st\<lparr>h_S_max := PInf\<rparr>"] have X1: "X_coord st1 = X_coord st"
    by simp
  show ?thesis
  proof (cases "iface_loop c e k m [0..<Suc m] (reconstruct c k m st1)")
    case (Return_NULL s)
    with iface_loop_X[of c e k m "[0..<Suc m]" "reconstruct c k m st1"] Go show ?thesis
      by (simp add: step_def reconstruct_X X1 grid_step_refl)
  next
    case inner: (Go st2)
    with iface_loop_X[of c e k m "[0..<Suc m]" "reconstruct c k m st1"]
    have X2: "X_coord st2 = X_coord st"
      by (simp add: reconstruct_X X1)
    have "grid_step m (X_coord st) (X_coord (advance c k m st2))"
      using advance_grid_step[of m st2 c k] by (simp add: X2)
    with Go inner show ?thesis
      by (simp add: step_def time_update_X)
  qed
qed

lemma march_X: "grid_step m (X_coord st) (X_coord (final (march c e m k st)))"
proof (induction c e m k st rule: march.induct)
  case (1 c e m k st)
  show ?case
  proof (cases "k \<le> N_steps c")
    case False
    then show ?thesis
      by (subst march.simps) (simp add: grid_step_refl)
  next
    case True
    note st = step_X[of m st c e k]
    show ?thesis
    proof (cases "step c e k m st")
      case (Continue s)
      with st "1.IH"[OF True Continue] True show ?thesis
        by (subst march.simps) (auto intro: grid_step_trans)
    next
      case (Break s)
      with st True show ?thesis
        by (subst march.simps) simp
    next
      case (Goto_return_NULL s)
      with st True show ?thesis
        by (subst march.simps) simp
    qed
  qed
qed

lemma final_epilogue_X: "X_coord (final (epilogue r)) = X_coord (final r)"
  by (cases r) simp_all

lemma run_solver_X: "grid_step m (X_coord st) (X_coord (final (run_solver c e m st)))"
proof -
  have X0: "X_coord (start c (enter c st)) = X_coord st"
    by (simp add: start_def enter_def)
  have "grid_step m (X_coord (start c (enter c st)))
          (X_coord (final (march c e m 1 (start c (enter c st)))))"
    by (rule march_X)
  then have "grid_step m (X_coord st) (X_coord (final (epilogue (march c e m 1 (start c (enter c st))))))"
    by (simp only: X0 final_epilogue_X)
  moreover have "X_coord (final (no_memory msg (enter c st))) = X_coord st" for msg
    by (simp add: no_memory_def enter_def)
  ultimately show ?thesis
    by (simp add: run_solver_def grid_step_refl)
qed


lemma ALE_solver_X:
  "ALE_solver e m n st = Some st' \<Longrightarrow> grid_step m (X_coord st) (X_coord st')"
  by (auto simp: ALE_solver_def GRP_solver_ALE_source_Undone_def run_solver_X
      split: option.splits if_splits)

lemma init_X_loop:
  "fold (init_X hh) [0..<n] st =
     st\<lparr>X_coord := (X_coord st)(0 := (\<lambda>j. if j < n then hh * c_double (int j) else X_coord st 0 j))\<rparr>"
proof (induction n)
  case 0
  show ?case by simp
next
  case (Suc n)
  show ?case
    unfolding fold_upt_Suc Suc
    by (simp add: init_X_def fun_eq_iff)
qed

lemma init_E_loop_X: "X_coord (fold (init_E g) js st) = X_coord st"
  by (rule fold_inv[where Q="\<lambda>s. X_coord s = X_coord st"]) (simp_all add: init_E_def)

lemma init_E_loop_config: "config (fold (init_E g) js st) = config st"
  by (rule fold_inv[where Q="\<lambda>s. config s = config st"]) (simp_all add: init_E_def)

lemma init_grid_X:
  "X_coord (init_grid m st) =
     (X_coord st)(0 := (\<lambda>j. if j < Suc m then config st 10 * c_double (int j) else X_coord st 0 j))"
  by (simp only: init_grid_def init_E_loop_X init_X_loop) simp

lemma init_grid_config: "config (init_grid m st) = config st"
  by (simp only: init_grid_def init_E_loop_config init_X_loop) simp

lemma copy_X_loop:
  "X_coord (fold (copy_X k) [0..<n] st) k' j =
     (if k' = k \<and> j < n then X_coord st 0 j else X_coord st k' j)"
proof (induction n arbitrary: k' j)
  case 0
  show ?case by simp
next
  case (Suc n)
  show ?case
    unfolding fold_upt_Suc
    by (auto simp: copy_X_def Suc less_Suc_eq)
qed

lemma copy_X_rows_gen:
  "0 \<notin> set ks \<Longrightarrow>
   X_coord (fold (\<lambda>k. fold (copy_X k) [0..<n]) ks st) k' j =
     (if k' \<in> set ks \<and> j < n then X_coord st 0 j else X_coord st k' j)"
proof (induction ks arbitrary: st)
  case Nil
  show ?case by simp
next
  case (Cons k ks)
  then show ?case
    by (auto simp: copy_X_loop)
qed

lemma copy_X_rows_X:
  "X_coord (copy_X_rows m n st) k j =
     (if 1 \<le> k \<and> k < nat n \<and> j \<le> m then X_coord st 0 j else X_coord st k j)"
  unfolding copy_X_rows_def
  by (subst copy_X_rows_gen) auto

lemma copy_X_rows_config: "config (copy_X_rows m n st) = config st"
  unfolding copy_X_rows_def
proof (rule fold_inv[where Q="\<lambda>s. config s = config st"])
  fix k and s :: state
  assume "config s = config st"
  then show "config (fold (copy_X k) [0..<Suc m] s) = config st"
    by (intro fold_inv[where Q="\<lambda>s. config s = config st"]) (simp_all add: copy_X_def)
qed simp

subsection \<open>An unknown boundary tag; what main returns\<close>

lemma boundary_values_unknown:
  "\<not> known_bound (bound c) \<Longrightarrow>
   boundary_values c m st =
     Return_NULL (st\<lparr>out := out st @ [Printf ''No suitable boundary coditions!'' []]\<rparr>)"
  by (simp add: boundary_values_def known_bound_def)

lemma step_unknown:
  "\<not> known_bound (bound c) \<Longrightarrow>
   step c e k m st =
     Goto_return_NULL (st\<lparr>h_S_max := PInf,
       out := out st @ [Printf ''No suitable boundary coditions!'' []]\<rparr>)"
  by (simp add: step_def boundary_values_unknown)

lemma march_unknown:
  "\<not> known_bound (bound c) \<Longrightarrow>
   march c e m 1 st =
     (if 1 \<le> N_steps c
      then Jumped (st\<lparr>h_S_max := PInf,
             out := out st @ [Printf ''No suitable boundary coditions!'' []]\<rparr>)
      else Left_loop 1 st)"
  by (subst march.simps) (simp add: step_unknown)

lemma run_solver_unknown:
  assumes "\<not> known_bound (bound c)"
  shows "same_cells st (final (run_solver c e m st))"
    and "mem_slope e \<Longrightarrow> mem_next e \<Longrightarrow> mem_t e \<Longrightarrow> mem_flux e \<Longrightarrow> 1 \<le> N_steps c \<Longrightarrow>
         run_solver c e m st =
           Jumped ((start c (enter c st))\<lparr>h_S_max := PInf,
             out := out st @ [Printf ''No suitable boundary coditions!'' []]\<rparr>)"
  using assms
  by (simp_all add: run_solver_def no_memory_def march_unknown same_cells_def)
     (simp_all add: start_def enter_def)

lemma read_consts_bound: "read_consts st = Some c \<Longrightarrow> c_int (config st 17) = Some (bound c)"
  by (auto simp: read_consts_def split: option.splits)

lemma read_consts_N: "read_consts st = Some c \<Longrightarrow> c_int (config st 5) = Some (N_steps c)"
  by (auto simp: read_consts_def split: option.splits)


lemma main_EUL_GRP:
  assumes "main_1D (with_ALE e sv) True ''EUL'' n st = Some r"
    and "c_int (config st 9) = Some 2" and "c_int (config st 3) = Some (int m)"
  shows "\<exists>c. read_consts (EUL_memory m n st) = Some c
           \<and> memory r = final (run_solver c e m (EUL_memory m n st))
           \<and> retval r = 0 \<and> written r = Some (memory r)"
  using assms
  by (auto simp: main_1D_def with_ALE_def write_and_return_def Let_def EUL_memory_def
      ALE_solver_def GRP_solver_ALE_source_Undone_def split: option.splits if_splits)

lemma copy_X_rows_other:
  "CV_RHO (copy_X_rows m n st) = CV_RHO st" "CV_U (copy_X_rows m n st) = CV_U st"
  "CV_P (copy_X_rows m n st) = CV_P st" "CV_E (copy_X_rows m n st) = CV_E st"
  "out (copy_X_rows m n st) = out st"
proof -
  have "CV_RHO s = CV_RHO st \<and> CV_U s = CV_U st \<and> CV_P s = CV_P st \<and> CV_E s = CV_E st
          \<and> out s = out st" if "s = copy_X_rows m n st" for s
    unfolding that copy_X_rows_def
  proof (rule fold_inv[where Q="\<lambda>s. CV_RHO s = CV_RHO st \<and> CV_U s = CV_U st \<and> CV_P s = CV_P st
          \<and> CV_E s = CV_E st \<and> out s = out st"])
    fix k and s :: state
    assume a: "CV_RHO s = CV_RHO st \<and> CV_U s = CV_U st \<and> CV_P s = CV_P st
      \<and> CV_E s = CV_E st \<and> out s = out st"
    then show "CV_RHO (fold (copy_X k) [0..<Suc m] s) = CV_RHO st
      \<and> CV_U (fold (copy_X k) [0..<Suc m] s) = CV_U st
      \<and> CV_P (fold (copy_X k) [0..<Suc m] s) = CV_P st
      \<and> CV_E (fold (copy_X k) [0..<Suc m] s) = CV_E st
      \<and> out (fold (copy_X k) [0..<Suc m] s) = out st"
      by (intro fold_inv[where Q="\<lambda>s. CV_RHO s = CV_RHO st \<and> CV_U s = CV_U st
          \<and> CV_P s = CV_P st \<and> CV_E s = CV_E st \<and> out s = out st"])
        (simp_all add: copy_X_def)
  qed simp
  then show "CV_RHO (copy_X_rows m n st) = CV_RHO st" "CV_U (copy_X_rows m n st) = CV_U st"
    "CV_P (copy_X_rows m n st) = CV_P st" "CV_E (copy_X_rows m n st) = CV_E st"
    "out (copy_X_rows m n st) = out st"
    by simp_all
qed

lemma init_E_loop:
  "fold (init_E g) [0..<n] st =
     st\<lparr>CV_E := (CV_E st)(0 := (\<lambda>j. if j < n
        then Fin 0.5 * CV_U st 0 j * CV_U st 0 j + CV_P st 0 j / (g - Fin 1.0) / CV_RHO st 0 j
        else CV_E st 0 j))\<rparr>"
proof (induction n)
  case 0
  show ?case by simp
next
  case (Suc n)
  show ?case
    unfolding fold_upt_Suc Suc
    by (simp add: init_E_def fun_eq_iff)
qed

lemma init_grid_cells:
  "CV_RHO (init_grid m st) = CV_RHO st" "CV_U (init_grid m st) = CV_U st"
  "CV_P (init_grid m st) = CV_P st" "0 < k \<Longrightarrow> CV_E (init_grid m st) k = CV_E st k"
  "out (init_grid m st) = out st"
  by (simp_all only: init_grid_def init_E_loop init_X_loop) simp_all

lemma EUL_memory_cells:
  "CV_RHO (EUL_memory m n st) = CV_RHO st" "CV_U (EUL_memory m n st) = CV_U st"
  "CV_P (EUL_memory m n st) = CV_P st" "0 < k \<Longrightarrow> CV_E (EUL_memory m n st) k = CV_E st k"
  "out (EUL_memory m n st) = out st"
  by (simp_all add: EUL_memory_def copy_X_rows_other init_grid_cells)

lemma EUL_memory_config:
  "config (EUL_memory m n st) = (config st)(8 := c_double 0)"
  by (simp add: EUL_memory_def copy_X_rows_config init_grid_config)

lemma unknown_boundary_run:
  assumes run: "main_1D (with_ALE e sv) True ''EUL'' n st = Some r"
    and order: "c_int (config st 9) = Some 2" and cells: "c_int (config st 3) = Some (int m)"
    and tag: "c_int (config st 17) = Some b" and unknown: "\<not> known_bound b"
  shows "retval r = 0" and "written r = Some (memory r)"
    and "0 < k \<Longrightarrow> CV_RHO (memory r) k = CV_RHO st k \<and> CV_U (memory r) k = CV_U st k
           \<and> CV_P (memory r) k = CV_P st k \<and> CV_E (memory r) k = CV_E st k"
    and "mem_slope e \<and> mem_next e \<and> mem_t e \<and> mem_flux e \<Longrightarrow> c_int (config st 5) = Some n_max \<Longrightarrow>
         1 \<le> n_max \<Longrightarrow>
         out (memory r) = out st @ [Printf ''No suitable boundary coditions!'' []]"
proof -
  from main_EUL_GRP[OF run order cells] obtain c where
    c: "read_consts (EUL_memory m n st) = Some c"
    and mem: "memory r = final (run_solver c e m (EUL_memory m n st))"
    and ret: "retval r = 0" "written r = Some (memory r)"
    by blast
  from read_consts_bound[OF c] tag have b: "bound c = b"
    by (simp add: EUL_memory_config)
  with unknown have u: "\<not> known_bound (bound c)"
    by simp
  show "retval r = 0" "written r = Some (memory r)"
    by (fact ret)+
  from run_solver_unknown(1)[OF u, where e = e and m = m and st = "EUL_memory m n st"]
  show "CV_RHO (memory r) k = CV_RHO st k \<and> CV_U (memory r) k = CV_U st k
           \<and> CV_P (memory r) k = CV_P st k \<and> CV_E (memory r) k = CV_E st k" if "0 < k"
    using that by (simp add: same_cells_def mem EUL_memory_cells)
  show "out (memory r) = out st @ [Printf ''No suitable boundary coditions!'' []]"
    if "mem_slope e \<and> mem_next e \<and> mem_t e \<and> mem_flux e" "c_int (config st 5) = Some n_max"
      "1 \<le> n_max"
  proof -
    from read_consts_N[OF c] that(2) have "N_steps c = n_max"
      by (simp add: EUL_memory_config)
    with that run_solver_unknown(2)[OF u, where e = e and m = m and st = "EUL_memory m n st"]
    show ?thesis
      by (simp add: mem EUL_memory_cells)
  qed
qed

lemma example_run_defined:
  assumes "\<bar>b\<bar> \<le> 100"
  shows "\<exists>r. main_1D (with_ALE example_env no_solvers) True ''EUL'' 3 (example_state b) = Some r"
proof -
  from assms have "(0 \<le> b \<longrightarrow> b \<le> 2147483647) \<and> (\<not> 0 \<le> b \<longrightarrow> - 2147483648 \<le> b)"
    by arith
  then show ?thesis
    by (simp add: main_1D_def Let_def with_ALE_def write_and_return_def ALE_solver_def
        GRP_solver_ALE_source_Undone_def read_consts_def init_grid_config copy_X_rows_config
        example_config_def example_state_def c_double_def nt_def)
qed

subsection \<open>The readers\<close>

lemma int32_roundtrip:
  "- 2147483648 \<le> n \<Longrightarrow> n \<le> 2147483647 \<Longrightarrow> c_int (c_double n) = Some n"
  by (simp add: c_double_def)

lemma c_int_not_isinf: "c_int x = Some n \<Longrightarrow> \<not> isinf x"
  by (cases x) simp_all

lemma STR_FLU_INI_1D_mismatch:
  "opens f \<Longrightarrow> c_int (cfg 3) = Some n \<Longrightarrow> num f \<noteq> n \<Longrightarrow>
   STR_FLU_INI_1D f cfg = Exit 2"
  by (auto simp: STR_FLU_INI_1D_def dest: c_int_not_isinf)

lemma STR_FLU_INI_1D_Ret:
  assumes "STR_FLU_INI_1D f cfg = Ret cfg'" and "- 2147483648 \<le> num f" "num f \<le> 2147483647"
  shows "c_int (cfg' 3) = Some (num f) \<and> (\<not> isinf (cfg 3) \<longrightarrow> cfg' = cfg)"
  using assms
  by (auto simp: STR_FLU_INI_1D_def load_values_def int32_roundtrip
      split: if_splits option.splits)

lemma file_1D_initialize_agree:
  assumes "file_1D_initialize f_RHO f_U f_P cfg = Ret cfg'"
    and "- 2147483648 \<le> num f_RHO" "num f_RHO \<le> 2147483647"
  shows "num f_U = num f_RHO \<and> num f_P = num f_RHO \<and> c_int (cfg' 3) = Some (num f_RHO)"
proof -
  from assms(1) obtain c1 c2 where
    1: "STR_FLU_INI_1D f_RHO cfg = Ret c1" and 2: "STR_FLU_INI_1D f_U c1 = Ret c2"
    and 3: "STR_FLU_INI_1D f_P c2 = Ret cfg'"
    by (auto simp: file_1D_initialize_def split: proc.splits)
  from STR_FLU_INI_1D_Ret[OF 1 assms(2,3)] have n1: "c_int (c1 3) = Some (num f_RHO)"
    by simp
  with 2 have u: "num f_U = num f_RHO" and c2: "c2 = c1"
    by (auto simp: STR_FLU_INI_1D_def load_values_def dest: c_int_not_isinf split: if_splits)
  with 3 n1 have "num f_P = num f_RHO" and "cfg' = c2"
    by (auto simp: STR_FLU_INI_1D_def load_values_def dest: c_int_not_isinf split: if_splits)
  with u c2 n1 show ?thesis
    by simp
qed

subsection \<open>The loops over the interfaces and the cells\<close>

lemmas face_defs =
  rho_L_def u_L_def p_L_def rho_R_def u_R_def p_R_def v_L_face_def v_R_face_def
  h_L_face_def h_R_face_def s_L_face_def s_R_face_def c_L_def c_R_def ratio_L_def ratio_R_def

lemma solve_GRP_frame:
  "solve_GRP c e m i (st\<lparr>h_S_max := a, time_c := b, out := ou, RHO_next := r1, U_next := r2,
      P_next := r3, RHO_t := r4, U_t := r5, P_t := r6\<rparr>) = solve_GRP c e m i st"
  by (simp add: solve_GRP_def face_defs)

lemma iface_body_Go:
  assumes "iface_body c e k m j st = Go st'"
  shows "\<exists>hs tc ou. st' = st\<lparr>h_S_max := hs, time_c := tc, out := ou,
           RHO_next := (RHO_next st)(j := mid (solve_GRP c e m j st) 0),
           U_next := (U_next st)(j := mid (solve_GRP c e m j st) 1),
           P_next := (P_next st)(j := mid (solve_GRP c e m j st) 2),
           RHO_t := (RHO_t st)(j := dire (solve_GRP c e m j st) 0),
           U_t := (U_t st)(j := dire (solve_GRP c e m j st) 1),
           P_t := (P_t st)(j := dire (solve_GRP c e m j st) 2)\<rparr>"
proof -
  define r where "r = solve_GRP c e m j st"
  define s1 where "s1 = st\<lparr>h_S_max := fmin (fmin (h_S_max st) (ratio_L c j st)) (ratio_R c m j st)\<rparr>"
  define s2 where "s2 = star_nonfinite c k j (mid r 1) (mid r 2) (star_negative c k j (mid r 2) s1)"
  have s2: "s2 = st\<lparr>h_S_max := h_S_max s2, time_c := time_c s2, out := out s2\<rparr>"
    by (simp add: s2_def s1_def star_nonfinite_def star_negative_def)
  from assms have "st' = s2\<lparr>RHO_next := (RHO_next s2)(j := mid r 0),
                    U_next := (U_next s2)(j := mid r 1),
                    P_next := (P_next s2)(j := mid r 2),
                    RHO_t := (RHO_t s2)(j := dire r 0),
                    U_t := (U_t s2)(j := dire r 1),
                    P_t := (P_t s2)(j := dire r 2)\<rparr>"
    by (simp add: iface_body_def Let_def r_def s1_def s2_def split: if_splits)
  also have "\<dots> = st\<lparr>h_S_max := h_S_max s2, time_c := time_c s2, out := out s2,
           RHO_next := (RHO_next st)(j := mid r 0),
           U_next := (U_next st)(j := mid r 1),
           P_next := (P_next st)(j := mid r 2),
           RHO_t := (RHO_t st)(j := dire r 0),
           U_t := (U_t st)(j := dire r 1),
           P_t := (P_t st)(j := dire r 2)\<rparr>"
    by (subst s2) (simp add: s2_def s1_def star_nonfinite_def star_negative_def)
  finally show ?thesis
    unfolding r_def by blast
qed

lemma iface_loop_Go:
  assumes "iface_loop c e k m js st = Go st'"
  shows "\<exists>hs tc ou. st' = st\<lparr>h_S_max := hs, time_c := tc, out := ou,
           RHO_next := (\<lambda>i. if i \<in> set js then mid (solve_GRP c e m i st) 0 else RHO_next st i),
           U_next := (\<lambda>i. if i \<in> set js then mid (solve_GRP c e m i st) 1 else U_next st i),
           P_next := (\<lambda>i. if i \<in> set js then mid (solve_GRP c e m i st) 2 else P_next st i),
           RHO_t := (\<lambda>i. if i \<in> set js then dire (solve_GRP c e m i st) 0 else RHO_t st i),
           U_t := (\<lambda>i. if i \<in> set js then dire (solve_GRP c e m i st) 1 else U_t st i),
           P_t := (\<lambda>i. if i \<in> set js then dire (solve_GRP c e m i st) 2 else P_t st i)\<rparr>"
  using assms
proof (induction js arbitrary: st)
  case Nil
  then have "st' = st"
    by simp
  then show ?case
    by (intro exI[of _ "h_S_max st"] exI[of _ "time_c st"] exI[of _ "out st"]) simp
next
  case (Cons j js)
  from Cons.prems obtain s1 where b: "iface_body c e k m j st = Go s1"
    and l: "iface_loop c e k m js s1 = Go st'"
    by (auto split: flow.splits)
  from iface_body_Go[OF b] obtain hs1 tc1 o1 where s1: "s1 = st\<lparr>h_S_max := hs1, time_c := tc1, out := o1,
           RHO_next := (RHO_next st)(j := mid (solve_GRP c e m j st) 0),
           U_next := (U_next st)(j := mid (solve_GRP c e m j st) 1),
           P_next := (P_next st)(j := mid (solve_GRP c e m j st) 2),
           RHO_t := (RHO_t st)(j := dire (solve_GRP c e m j st) 0),
           U_t := (U_t st)(j := dire (solve_GRP c e m j st) 1),
           P_t := (P_t st)(j := dire (solve_GRP c e m j st) 2)\<rparr>"
    by blast
  have fr: "solve_GRP c e m i s1 = solve_GRP c e m i st" for i
    unfolding s1 by (rule solve_GRP_frame)
  from Cons.IH[OF l] obtain hs tc ou where "st' = s1\<lparr>h_S_max := hs, time_c := tc, out := ou,
           RHO_next := (\<lambda>i. if i \<in> set js then mid (solve_GRP c e m i st) 0 else RHO_next s1 i),
           U_next := (\<lambda>i. if i \<in> set js then mid (solve_GRP c e m i st) 1 else U_next s1 i),
           P_next := (\<lambda>i. if i \<in> set js then mid (solve_GRP c e m i st) 2 else P_next s1 i),
           RHO_t := (\<lambda>i. if i \<in> set js then dire (solve_GRP c e m i st) 0 else RHO_t s1 i),
           U_t := (\<lambda>i. if i \<in> set js then dire (solve_GRP c e m i st) 1 else U_t s1 i),
           P_t := (\<lambda>i. if i \<in> set js then dire (solve_GRP c e m i st) 2 else P_t s1 i)\<rparr>"
    unfolding fr by blast
  then have "st' = st\<lparr>h_S_max := hs, time_c := tc, out := ou,
           RHO_next := (\<lambda>i. if i \<in> set (j # js) then mid (solve_GRP c e m i st) 0 else RHO_next st i),
           U_next := (\<lambda>i. if i \<in> set (j # js) then mid (solve_GRP c e m i st) 1 else U_next st i),
           P_next := (\<lambda>i. if i \<in> set (j # js) then mid (solve_GRP c e m i st) 2 else P_next st i),
           RHO_t := (\<lambda>i. if i \<in> set (j # js) then dire (solve_GRP c e m i st) 0 else RHO_t st i),
           U_t := (\<lambda>i. if i \<in> set (j # js) then dire (solve_GRP c e m i st) 1 else U_t st i),
           P_t := (\<lambda>i. if i \<in> set (j # js) then dire (solve_GRP c e m i st) 2 else P_t st i)\<rparr>"
    unfolding s1 by (simp add: fun_eq_iff)
  then show ?case
    by blast
qed


lemmas update_defs =
  RHO_new_def Mom_def Ene_def U_new_def E_new_def P_new_def update_negative_def
  update_nonfinite_def

lemma update_frame:
  fixes st :: state and a1 a2 a3 a4 ou tc x1 x2 x3
  defines "s' \<equiv> st\<lparr>CV_RHO := (CV_RHO st)(nt := a1), CV_U := (CV_U st)(nt := a2),
      CV_E := (CV_E st)(nt := a3), CV_P := (CV_P st)(nt := a4), out := ou, time_c := tc,
      s_u := x1, s_p := x2, s_rho := x3\<rparr>"
  shows "RHO_new j s' = RHO_new j st" "U_new j s' = U_new j st" "E_new j s' = E_new j st"
    "P_new c j s' = P_new c j st" "update_negative c j s' = update_negative c j st"
    "update_nonfinite c j s' = update_nonfinite c j st"
  by (simp_all add: s'_def update_defs nt_def)

lemma flagged_Suc:
  "flagged c (Suc n) st \<longleftrightarrow> flagged c n st \<or> update_negative c n st \<or> update_nonfinite c n st"
  by (auto simp: flagged_def less_Suc_eq)

lemma update_loop_eq:
  "\<exists>ou. fold (update_body c k) [0..<n] st =
     st\<lparr>CV_RHO := (CV_RHO st)(nt := (\<lambda>i. if i < n then RHO_new i st else CV_RHO st nt i)),
        CV_U := (CV_U st)(nt := (\<lambda>i. if i < n then U_new i st else CV_U st nt i)),
        CV_E := (CV_E st)(nt := (\<lambda>i. if i < n then E_new i st else CV_E st nt i)),
        CV_P := (CV_P st)(nt := (\<lambda>i. if i < n then P_new c i st else CV_P st nt i)),
        out := ou,
        time_c := (if flagged c n st then t_all c else time_c st),
        s_u := (\<lambda>i. if i < n
          then (U_next st (i + 1) - U_next st i) / (X_coord st nt (i + 1) - X_coord st nt i)
          else s_u st i),
        s_p := (\<lambda>i. if i < n
          then (P_next st (i + 1) - P_next st i) / (X_coord st nt (i + 1) - X_coord st nt i)
          else s_p st i),
        s_rho := (\<lambda>i. if i < n
          then (RHO_next st (i + 1) - RHO_next st i) / (X_coord st nt (i + 1) - X_coord st nt i)
          else s_rho st i)\<rparr>"
proof (induction n)
  case 0
  show ?case
    by (intro exI[of _ "out st"]) (simp add: flagged_def)
next
  case (Suc n)
  then obtain ou where eq: "fold (update_body c k) [0..<n] st =
     st\<lparr>CV_RHO := (CV_RHO st)(nt := (\<lambda>i. if i < n then RHO_new i st else CV_RHO st nt i)),
        CV_U := (CV_U st)(nt := (\<lambda>i. if i < n then U_new i st else CV_U st nt i)),
        CV_E := (CV_E st)(nt := (\<lambda>i. if i < n then E_new i st else CV_E st nt i)),
        CV_P := (CV_P st)(nt := (\<lambda>i. if i < n then P_new c i st else CV_P st nt i)),
        out := ou,
        time_c := (if flagged c n st then t_all c else time_c st),
        s_u := (\<lambda>i. if i < n
          then (U_next st (i + 1) - U_next st i) / (X_coord st nt (i + 1) - X_coord st nt i)
          else s_u st i),
        s_p := (\<lambda>i. if i < n
          then (P_next st (i + 1) - P_next st i) / (X_coord st nt (i + 1) - X_coord st nt i)
          else s_p st i),
        s_rho := (\<lambda>i. if i < n
          then (RHO_next st (i + 1) - RHO_next st i) / (X_coord st nt (i + 1) - X_coord st nt i)
          else s_rho st i)\<rparr>" (is "_ = ?s")
    by blast
  have fr: "RHO_new n ?s = RHO_new n st" "U_new n ?s = U_new n st" "E_new n ?s = E_new n st"
    "P_new c n ?s = P_new c n st" "update_negative c n ?s = update_negative c n st"
    "update_nonfinite c n ?s = update_nonfinite c n st"
    by (rule update_frame)+
  show ?case
    unfolding fold_upt_Suc eq
    apply (rule exI[of _ "out (update_body c k n ?s)"])
    apply (simp add: update_body_def Let_def fr flagged_Suc)
    apply (simp add: fun_eq_iff less_Suc_eq)
    done
qed


lemma dbl_mult_commute: "a * b = b * a" for a b :: dbl
  by (cases a; cases b) (simp_all add: mult.commute)

lemma flux_loop_eq:
  "fold (flux_body c) [0..<n] st =
     st\<lparr>F1 := (\<lambda>j. if j < n
          then (RHO_next st j + Fin 0.5 * tau st * RHO_t st j)
            * (U_next st j + Fin 0.5 * tau st * U_t st j)
          else F1 st j),
        F2 := (\<lambda>j. if j < n
          then (RHO_next st j + Fin 0.5 * tau st * RHO_t st j)
            * (U_next st j + Fin 0.5 * tau st * U_t st j)
            * (U_next st j + Fin 0.5 * tau st * U_t st j)
            + (P_next st j + Fin 0.5 * tau st * P_t st j)
          else F2 st j),
        F3 := (\<lambda>j. if j < n
          then ((gamma c / (gamma c - Fin 1.0)) * (P_next st j + Fin 0.5 * tau st * P_t st j)
            + Fin 0.5 * ((RHO_next st j + Fin 0.5 * tau st * RHO_t st j)
                * (U_next st j + Fin 0.5 * tau st * U_t st j))
              * (U_next st j + Fin 0.5 * tau st * U_t st j))
            * (U_next st j + Fin 0.5 * tau st * U_t st j)
          else F3 st j),
        RHO_next := (\<lambda>j. if j < n
          then RHO_next st j + Fin 0.5 * tau st * RHO_t st j + Fin 0.5 * tau st * RHO_t st j
          else RHO_next st j),
        U_next := (\<lambda>j. if j < n
          then U_next st j + Fin 0.5 * tau st * U_t st j + Fin 0.5 * tau st * U_t st j
          else U_next st j),
        P_next := (\<lambda>j. if j < n
          then P_next st j + Fin 0.5 * tau st * P_t st j + Fin 0.5 * tau st * P_t st j
          else P_next st j),
        X_coord := (X_coord st)(nt := (\<lambda>j. if j < n then X_coord st (nt - 1) j
          else X_coord st nt j))\<rparr>"
proof (induction n)
  case 0
  show ?case by simp
next
  case (Suc n)
  show ?case
    unfolding fold_upt_Suc Suc
    by (simp add: flux_body_def Let_def fun_eq_iff less_Suc_eq nt_def)
qed

lemma advance_fluxes:
  fixes c :: solver_consts and k :: int and st :: state
  assumes "j \<le> m"
  defines "s \<equiv> advance c k m st"
  defines "rho_h \<equiv> RHO_next st j + Fin 0.5 * tau s * RHO_t st j"
    and "u_h \<equiv> U_next st j + Fin 0.5 * tau s * U_t st j"
    and "p_h \<equiv> P_next st j + Fin 0.5 * tau s * P_t st j"
  shows "tau s = tau (time_step c st)"
    and "F1 s j = rho_h * u_h" and "F2 s j = F1 s j * u_h + p_h"
    and "F3 s j = (gamma c / (gamma c - Fin 1.0) * p_h + Fin 0.5 * F1 s j * u_h) * u_h"
    and "RHO_next s j = rho_h + Fin 0.5 * tau s * RHO_t st j"
    and "U_next s j = u_h + Fin 0.5 * tau s * U_t st j"
    and "P_next s j = p_h + Fin 0.5 * tau s * P_t st j"
proof -
  define T where "T = time_step c st"
  define S where "S = fold (flux_body c) [0..<Suc m] T"
  from update_loop_eq[of c k m S] obtain ou where
    s: "s = S\<lparr>CV_RHO := (CV_RHO S)(nt := (\<lambda>i. if i < m then RHO_new i S else CV_RHO S nt i)),
        CV_U := (CV_U S)(nt := (\<lambda>i. if i < m then U_new i S else CV_U S nt i)),
        CV_E := (CV_E S)(nt := (\<lambda>i. if i < m then E_new i S else CV_E S nt i)),
        CV_P := (CV_P S)(nt := (\<lambda>i. if i < m then P_new c i S else CV_P S nt i)),
        out := ou,
        time_c := (if flagged c m S then t_all c else time_c S),
        s_u := (\<lambda>i. if i < m
          then (U_next S (i + 1) - U_next S i) / (X_coord S nt (i + 1) - X_coord S nt i)
          else s_u S i),
        s_p := (\<lambda>i. if i < m
          then (P_next S (i + 1) - P_next S i) / (X_coord S nt (i + 1) - X_coord S nt i)
          else s_p S i),
        s_rho := (\<lambda>i. if i < m
          then (RHO_next S (i + 1) - RHO_next S i) / (X_coord S nt (i + 1) - X_coord S nt i)
          else s_rho S i)\<rparr>"
    unfolding s_def advance_def S_def T_def by blast
  have T: "RHO_next T = RHO_next st" "U_next T = U_next st" "P_next T = P_next st"
    "RHO_t T = RHO_t st" "U_t T = U_t st" "P_t T = P_t st"
    by (simp_all add: T_def time_step_def Let_def)
  have tau: "tau s = tau T"
    unfolding s S_def flux_loop_eq by simp
  show "tau s = tau (time_step c st)"
    using tau by (simp add: T_def)
  from assms(1) have j: "j < Suc m"
    by simp
  show "F1 s j = rho_h * u_h" "F2 s j = F1 s j * u_h + p_h"
    "F3 s j = (gamma c / (gamma c - Fin 1.0) * p_h + Fin 0.5 * F1 s j * u_h) * u_h"
    "RHO_next s j = rho_h + Fin 0.5 * tau s * RHO_t st j"
    "U_next s j = u_h + Fin 0.5 * tau s * U_t st j"
    "P_next s j = p_h + Fin 0.5 * tau s * P_t st j"
    unfolding rho_h_def u_h_def p_h_def tau
    unfolding s S_def flux_loop_eq
    using j by (simp_all add: T)
qed


lemmas eval_defs =
  tube_def tube_consts_def drift_env_def example_env_def blank_def iface_body_def face_defs
  solve_GRP_def drift_solver_def star_negative_def star_nonfinite_def mid_def dire_def
  nt_def c_double_def Let_def minus_dbl_def upt_rec time_step_def

lemma tube_faces_Go: "iface_loop tube_consts drift_env 1 2 [0..<Suc 2] tube = Go tube_faces"
  unfolding tube_faces_def by (simp add: eval_defs)

lemma tube_tau: "tau (time_step tube_consts tube_faces) = Fin 0.125"
  unfolding tube_faces_def by (simp add: eval_defs)

lemma tube_solve:
  "solve_GRP tube_consts drift_env 2 j tube = ((Fin 1, Fin 1, Fin 1), (Fin 1, Fin 0, Fin 2))"
  by (simp add: eval_defs)

lemma tube_faces_next: "RHO_next tube_faces (Suc 0) = Fin 1" "RHO_t tube_faces (Suc 0) = Fin 1"
  unfolding tube_faces_def by (simp_all add: eval_defs)

subsection \<open>The slopes\<close>



lemma reconstruct_slopes:
  "s_u (reconstruct c k m st) = s_u (reconstruct_slopes c k m st)"
  "s_p (reconstruct c k m st) = s_p (reconstruct_slopes c k m st)"
  "s_rho (reconstruct c k m st) = s_rho (reconstruct_slopes c k m st)"
  by (simp_all add: reconstruct_def ghost_slopes_def)

subsection \<open>The states the solver reaches; the slopes of the ghost cells\<close>

lemma march_reaches:
  "reaches c e m st0 k st \<Longrightarrow> march c e m 1 (start c (enter c st0)) = march c e m k st"
proof (induction rule: reaches.induct)
  case first
  show ?case by simp
next
  case (after k st st')
  from after.hyps(2,3) have "march c e m k st = march c e m (k + 1) st'"
    by (subst march.simps) simp
  with after.IH show ?case
    by simp
qed
































subsection \<open>The time step\<close>






lemma dbl_le_trans: "a \<le> b \<Longrightarrow> b \<le> d \<Longrightarrow> a \<le> d" for a b d :: dbl
  by (cases a; cases b; cases d) simp_all

lemma fmin_NaN: "fmin x y = NaN \<longleftrightarrow> x = NaN \<and> y = NaN"
  by (cases x; cases y) simp_all

lemma fmin_le_left: "x \<noteq> NaN \<Longrightarrow> fmin x y \<le> x"
  by (cases x; cases y) simp_all


lemma fmin_nonneg: "Fin 0 \<le> x \<Longrightarrow> y = NaN \<or> Fin 0 \<le> y \<Longrightarrow> Fin 0 \<le> fmin x y"
  by (cases x; cases y) simp_all

lemma ratio_nonneg: "Fin 0 \<le> h \<Longrightarrow> h / (\<bar>a\<bar> + \<bar>b\<bar>) = NaN \<or> Fin 0 \<le> h / (\<bar>a\<bar> + \<bar>b\<bar>)"
  for h a b :: dbl
  by (cases h; cases a; cases b) (simp_all add: field_simps)


lemma dbl_mult_nonneg: "0 < r \<Longrightarrow> Fin 0 \<le> a \<Longrightarrow> Fin 0 \<le> Fin r * a"
  by (cases a) simp_all

lemma min_ratio_Cons:
  "min_ratio c m (j # js) st h0
     = min_ratio c m js st (fmin (fmin h0 (ratio_L c j st)) (ratio_R c m j st))"
  by (simp add: min_ratio_def)

lemma min_ratio_le_start: "h0 \<noteq> NaN \<Longrightarrow> min_ratio c m js st h0 \<le> h0"
proof (induction js arbitrary: h0)
  case Nil
  then show ?case
    by (cases h0) (simp_all add: min_ratio_def)
next
  case (Cons j js)
  let ?h = "fmin (fmin h0 (ratio_L c j st)) (ratio_R c m j st)"
  from Cons.prems have n: "?h \<noteq> NaN"
    by (simp add: fmin_NaN)
  from Cons.prems have n': "fmin h0 (ratio_L c j st) \<noteq> NaN"
    by (simp add: fmin_NaN)
  from fmin_le_left[OF n', of "ratio_R c m j st"] fmin_le_left[OF Cons.prems, of "ratio_L c j st"]
  have "?h \<le> h0"
    by (rule dbl_le_trans)
  with Cons.IH[OF n] show ?case
    unfolding min_ratio_Cons by (rule dbl_le_trans)
qed


lemma min_ratio_nonneg:
  assumes "Fin 0 \<le> h0"
    and "\<forall>j\<in>set js. Fin 0 \<le> h_L_face j st \<and> Fin 0 \<le> h_R_face m j st"
  shows "Fin 0 \<le> min_ratio c m js st h0"
  using assms
proof (induction js arbitrary: h0)
  case Nil
  then show ?case
    by (simp add: min_ratio_def)
next
  case (Cons j js)
  from Cons.prems(2) have "ratio_L c j st = NaN \<or> Fin 0 \<le> ratio_L c j st"
    "ratio_R c m j st = NaN \<or> Fin 0 \<le> ratio_R c m j st"
    by (simp_all add: ratio_L_def ratio_R_def ratio_nonneg)
  with Cons.prems(1) have "Fin 0 \<le> fmin (fmin h0 (ratio_L c j st)) (ratio_R c m j st)"
    by (intro fmin_nonneg)
  with Cons.IH[of "fmin (fmin h0 (ratio_L c j st)) (ratio_R c m j st)"] Cons.prems(2)
  show ?case
    unfolding min_ratio_Cons by simp
qed


lemma min_ratio_not_NaN: "min_ratio c m js st PInf \<noteq> NaN"
  using min_ratio_le_start[of PInf c m js st] by (cases "min_ratio c m js st PInf") simp_all

subsection \<open>Tables without the row the solver writes; a whole time step of an example\<close>

lemma ALE_solver_out_of_bounds:
  "read_consts st = Some c \<Longrightarrow> touches_row_nt c e m st \<Longrightarrow> n \<le> 1 \<Longrightarrow> ALE_solver e m n st = None"
  unfolding ALE_solver_def by (simp add: nt_def)

lemma ghost_slopes_idle: "bound c = - 1 \<or> bound c = - 4 \<Longrightarrow> ghost_slopes c m st = st"
  unfolding ghost_slopes_def by (elim disjE) simp_all


subsection \<open>What the parts of a time step leave unchanged\<close>














section \<open>Properties\<close>

text \<open>
  C9. The limiters are idempotent on every real \<open>a\<close>: \<open>minmod2(a,a) = a\<close>,
  \<open>minmod2(a,-a) = 0\<close> and \<open>minmod3(a,a,a) = a\<close>.
\<close>

theorem minmod_idempotent:
  "minmod2 (Fin a) (Fin a) = Fin a \<and> minmod2 (Fin a) (- Fin a) = Fin 0
     \<and> minmod3 (Fin a) (Fin a) (Fin a) = Fin a"
proof -
  have sq: "a * a \<le> 0 \<longleftrightarrow> a = 0"
    by (auto simp: mult_le_0_iff)
  have neg: "- (a * a) \<le> 0"
    by simp
  have sg: "a \<noteq> 0 \<Longrightarrow> sgn a * \<bar>a\<bar> = a"
    by (simp add: sgn_real_def)
  show ?thesis
    using sq neg sg by (simp add: minmod2_def minmod3_def)
qed


text \<open>
  C10. In the Eulerian march the grid never moves: when \<open>main\<close> runs the second-order
  Eulerian scheme on \<open>m\<close> cells with this solver, every row \<open>k\<close> of \<open>X\<close> that exists holds
  \<open>X[k][j] = h * j\<close> at every interface \<open>j\<close> from 0 to \<open>m\<close> when the solver has returned. (The
  solver writes \<open>X\<close> only by copying an entry of row \<open>nt - 1\<close> to row \<open>nt\<close>: \<open>run_solver_X\<close>.
  A run in which it does so in tables that have no row \<open>nt\<close> is undefined and returns
  nothing: \<open>ALE_solver_out_of_bounds\<close>.)
\<close>

theorem grid_never_moves:
  assumes run: "main_1D (with_ALE e sv) True ''EUL'' n st = Some r"
    and order: "c_int (config st 9) = Some 2"
    and cells: "c_int (config st 3) = Some (int m)"
    and row: "k < nat n" and col: "j \<le> m"
  shows "X_coord (memory r) k j = config st 10 * c_double (int j)"
proof -
  define st2 where
    "st2 = copy_X_rows m n ((init_grid m st)\<lparr>config := (config (init_grid m st))(8 := c_double 0)\<rparr>)"
  from run order cells obtain s where s: "ALE_solver e m n st2 = Some s" and r: "memory r = s"
    by (auto simp: main_1D_def with_ALE_def write_and_return_def Let_def st2_def
        split: option.splits if_splits)
  have X2: "X_coord st2 k' j' = config st 10 * c_double (int j')"
    if "k' = 0 \<or> k' < nat n" "j' \<le> m" for k' j'
    using that by (auto simp: st2_def copy_X_rows_X init_grid_X)
  from ALE_solver_X[OF s]
  have "X_coord s k j = X_coord st2 k j \<or> (k = nt \<and> j \<le> m \<and> X_coord s k j = X_coord st2 (nt - 1) j)"
    by (simp add: grid_step_def)
  then show ?thesis
    using X2[of k j] X2[of 0 j] row col by (auto simp: r nt_def)
qed

theorem grid_never_moves_witness:
  "\<exists>r. main_1D (with_ALE example_env no_solvers) True ''EUL'' 3 (example_state (- 4)) = Some r
     \<and> X_coord (memory r) 2 1 = Fin 0.5"
proof -
  have cfg: "config (example_state (- 4)) = example_config (- 4)"
    by (simp add: example_state_def)
  have order: "c_int (config (example_state (- 4)) 9) = Some 2"
    and cells: "c_int (config (example_state (- 4)) 3) = Some (int 2)"
    by (simp_all add: cfg example_config_def)
  obtain r where
    run: "main_1D (with_ALE example_env no_solvers) True ''EUL'' 3 (example_state (- 4)) = Some r"
    by (simp add: main_1D_def order cells Let_def with_ALE_def write_and_return_def ALE_solver_def
        GRP_solver_ALE_source_Undone_def read_consts_def init_grid_config copy_X_rows_config
        example_config_def cfg c_double_def nt_def)
  from grid_never_moves[OF run order cells, of 2 1]
  have "X_coord (memory r) 2 1 = Fin 0.5"
    by (simp add: cfg example_config_def c_double_def)
  with run show ?thesis
    by blast
qed


text \<open>
  C7. For a boundary tag that is none of -1, -2, -4, -5 and -24, the solver updates no cell:
  every row of the cell variables beyond row 0 is left as it was, and (when the loop is
  entered) the only output is the message that no boundary condition is suitable. The run
  is not aborted with an error status: \<open>main\<close> calls the writer and returns 0.
\<close>

theorem unknown_boundary_no_update:
  assumes "main_1D (with_ALE e sv) True ''EUL'' n st = Some r"
    and "c_int (config st 9) = Some 2" and "c_int (config st 3) = Some (int m)"
    and "c_int (config st 17) = Some b" and "\<not> known_bound b"
  shows "retval r = 0 \<and> written r = Some (memory r)
     \<and> (\<forall>k. 0 < k \<longrightarrow> CV_RHO (memory r) k = CV_RHO st k \<and> CV_U (memory r) k = CV_U st k
           \<and> CV_P (memory r) k = CV_P st k \<and> CV_E (memory r) k = CV_E st k)
     \<and> (mem_slope e \<and> mem_next e \<and> mem_t e \<and> mem_flux e
          \<and> (\<exists>n_max. c_int (config st 5) = Some n_max \<and> 1 \<le> n_max)
        \<longrightarrow> out (memory r) = out st @ [Printf ''No suitable boundary coditions!'' []])"
  using unknown_boundary_run[OF assms] by blast

theorem unknown_boundary_no_update_witness:
  "\<exists>r. main_1D (with_ALE example_env no_solvers) True ''EUL'' 3 (example_state (- 3)) = Some r
     \<and> retval r = 0 \<and> written r = Some (memory r) \<and> CV_RHO (memory r) 1 = (\<lambda>j. Fin 1)
     \<and> out (memory r) = [Printf ''No suitable boundary coditions!'' []]"
proof -
  have cfg: "config (example_state (- 3)) = example_config (- 3)"
    by (simp add: example_state_def)
  obtain r where
    run: "main_1D (with_ALE example_env no_solvers) True ''EUL'' 3 (example_state (- 3)) = Some r"
    using example_run_defined[of "- 3"] by auto
  have "c_int (config (example_state (- 3)) 9) = Some 2"
    and "c_int (config (example_state (- 3)) 3) = Some (int 2)"
    and "c_int (config (example_state (- 3)) 17) = Some (- 3)"
    and "\<not> known_bound (- 3)"
    and "c_int (config (example_state (- 3)) 5) = Some 3"
    by (simp_all add: cfg example_config_def known_bound_def c_double_def)
  from unknown_boundary_no_update[OF run this(1-4)] this(5) run show ?thesis
    by (simp add: example_env_def example_state_def blank_def)
qed

text \<open>The run of the example with the tag -3 ends with the exit status 0, after the writer
  has been called.\<close>

theorem unknown_boundary_exit_status_0:
  "exit_status (main_1D (with_ALE example_env no_solvers) True ''EUL'' 3 (example_state (- 3)))
     = Some 0
   \<and> writer_called
       (main_1D (with_ALE example_env no_solvers) True ''EUL'' 3 (example_state (- 3)))"
proof -
  have cfg: "config (example_state (- 3)) = example_config (- 3)"
    by (simp add: example_state_def)
  obtain r where
    run: "main_1D (with_ALE example_env no_solvers) True ''EUL'' 3 (example_state (- 3)) = Some r"
    using example_run_defined[of "- 3"] by auto
  have "c_int (config (example_state (- 3)) 9) = Some 2"
    and "c_int (config (example_state (- 3)) 3) = Some (int 2)"
    and "c_int (config (example_state (- 3)) 17) = Some (- 3)"
    and "\<not> known_bound (- 3)"
    by (simp_all add: cfg example_config_def known_bound_def c_double_def)
  from unknown_boundary_run(1,2)[OF run this] show ?thesis
    by (simp add: run exit_status_def writer_called_def)
qed


text \<open>
  C8. The files of a run must agree in their counts with each other and with the configured
  ones. The one-dimensional reader ensures it (\<open>file_1D_initialize_agree\<close>,
  \<open>STR_FLU_INI_1D_mismatch\<close>). The two-dimensional reader does not: with the cell count 100
  and \<open>n_x = 10\<close> configured and \<open>n_y\<close> not, a file of \<open>RHO\<close> with 10 lines of 7 columns is
  accepted, and so are the files of \<open>U\<close>, \<open>V\<close> and \<open>P\<close> with 10 lines of 10 columns: the
  reader returns instead of ending the process with the status 2.
\<close>

theorem initialize_2D_accepts_mismatch:
  "initialize_2D (grid_file 10 7) (grid_file 10 10) (grid_file 10 10) (grid_file 10 10) n_x_only
     = Ret (n_x_only(14 := Fin 10))"
  by (simp add: initialize_2D_def STR_FLU_INI_2D_def flu_var_init_def grid_file_def n_x_only_def
      load_values_def counts_differ_def c_double_def Let_def)


text \<open>
  C1. At every interface \<open>j\<close> of a time step the fluxes are built from the star state
  \<open>mid\<close> advanced by half the time step along \<open>dire\<close>:
  \<open>F1 = rho_h * u_h\<close>, \<open>F2 = F1 * u_h + p_h\<close> and
  \<open>F3 = u_h * (gamma / (gamma - 1) * p_h + 0.5 * F1 * u_h)\<close>. The half step is added to the
  stored interface state a second time after the fluxes are formed: at the end of the step
  \<open>RHO_next[j]\<close>, \<open>U_next[j]\<close> and \<open>P_next[j]\<close> hold the star state advanced by two half
  steps, from which the slopes of the next step are taken.
\<close>

theorem fluxes_from_half_step:
  fixes c :: solver_consts and e :: env and k :: int and st st2 :: state
  assumes "iface_loop c e k m [0..<Suc m] st = Go st2" and "j \<le> m"
  defines "r \<equiv> solve_GRP c e m j st" and "s \<equiv> advance c k m st2"
  defines "rho_h \<equiv> mid r 0 + Fin 0.5 * tau s * dire r 0"
    and "u_h \<equiv> mid r 1 + Fin 0.5 * tau s * dire r 1"
    and "p_h \<equiv> mid r 2 + Fin 0.5 * tau s * dire r 2"
  shows "F1 s j = rho_h * u_h \<and> F2 s j = F1 s j * u_h + p_h
     \<and> F3 s j = u_h * (gamma c / (gamma c - Fin 1) * p_h + Fin 0.5 * F1 s j * u_h)
     \<and> RHO_next s j = rho_h + Fin 0.5 * tau s * dire r 0
     \<and> U_next s j = u_h + Fin 0.5 * tau s * dire r 1
     \<and> P_next s j = p_h + Fin 0.5 * tau s * dire r 2"
proof -
  from iface_loop_Go[OF assms(1)] assms(2)
  have "RHO_next st2 j = mid r 0" "U_next st2 j = mid r 1" "P_next st2 j = mid r 2"
    "RHO_t st2 j = dire r 0" "U_t st2 j = dire r 1" "P_t st2 j = dire r 2"
    unfolding r_def by auto
  with advance_fluxes(2-7)[OF assms(2), of c k st2] show ?thesis
    unfolding s_def rho_h_def u_h_def p_h_def
    by (simp add: dbl_mult_commute)
qed

theorem fluxes_from_half_step_witness:
  "iface_loop tube_consts drift_env 1 2 [0..<Suc 2] tube = Go tube_faces
   \<and> tau (advance tube_consts 1 2 tube_faces) = Fin 0.125
   \<and> F1 (advance tube_consts 1 2 tube_faces) 1 = Fin 1.0625 * Fin 0.0625
   \<and> F2 (advance tube_consts 1 2 tube_faces) 1
        = F1 (advance tube_consts 1 2 tube_faces) 1 * Fin 0.0625 + Fin 2.0625
   \<and> RHO_next (advance tube_consts 1 2 tube_faces) 1 = Fin 1.125"
proof -
  have t: "tau (advance tube_consts 1 2 tube_faces) = Fin 0.125"
    using advance_fluxes(1)[of 1 2 tube_consts 1 tube_faces] by (simp add: tube_tau)
  have go: "iface_loop tube_consts drift_env 1 2 [0..<3] tube = Go tube_faces"
    using tube_faces_Go by simp
  from fluxes_from_half_step[OF tube_faces_Go, of 1] show ?thesis
    by (simp add: tube_solve mid_def dire_def t go)
qed

text \<open>In the tube the stored density at interface 1 is not the star density advanced
  by one half step.\<close>

theorem half_step_applied_twice:
  "RHO_next (advance tube_consts 1 2 tube_faces) 1
     \<noteq> mid (solve_GRP tube_consts drift_env 2 1 tube) 0
         + Fin 0.5 * tau (advance tube_consts 1 2 tube_faces)
           * dire (solve_GRP tube_consts drift_env 2 1 tube) 0"
proof -
  have t: "tau (advance tube_consts 1 2 tube_faces) = Fin 0.125"
    using advance_fluxes(1)[of 1 2 tube_consts 1 tube_faces] by (simp add: tube_tau)
  from advance_fluxes(5)[of 1 2 tube_consts 1 tube_faces] show ?thesis
    by (simp add: t tube_solve mid_def dire_def tube_faces_next)
qed













end
